theory Spec2Isabelle
  imports Complex_Main "HOL-Library.Sublist"
begin

section \<open>JavaScript numbers\<close>

text \<open>
  A JavaScript number is an IEEE-754 double. The finite doubles are real numbers; the two
  infinities and NaN are values of their own, because they are what a division by zero
  produces. The operations of this section are exact: the rounding of doubles is added
  to them in the second model of the backtest below. Zero carries no sign here: every
  zero divisor the program can reach is the result of \<^verbatim>\<open>Math.abs\<close> or is guarded to be
  positive, so it is +0.
\<close>

datatype jsnum = Fin real | PosInf | NegInf | NaN

fun js_neg :: "jsnum \<Rightarrow> jsnum" where
  "js_neg (Fin a) = Fin (- a)"
| "js_neg PosInf = NegInf"
| "js_neg NegInf = PosInf"
| "js_neg NaN = NaN"

fun js_add :: "jsnum \<Rightarrow> jsnum \<Rightarrow> jsnum" where
  "js_add (Fin a) (Fin b) = Fin (a + b)"
| "js_add NaN _ = NaN"
| "js_add _ NaN = NaN"
| "js_add PosInf NegInf = NaN"
| "js_add NegInf PosInf = NaN"
| "js_add PosInf _ = PosInf"
| "js_add _ PosInf = PosInf"
| "js_add NegInf _ = NegInf"
| "js_add _ NegInf = NegInf"

definition js_sub :: "jsnum \<Rightarrow> jsnum \<Rightarrow> jsnum" where
  "js_sub x y = js_add x (js_neg y)"

fun js_mul :: "jsnum \<Rightarrow> jsnum \<Rightarrow> jsnum" where
  "js_mul (Fin a) (Fin b) = Fin (a * b)"
| "js_mul NaN _ = NaN"
| "js_mul _ NaN = NaN"
| "js_mul (Fin a) PosInf = (if a = 0 then NaN else if a > 0 then PosInf else NegInf)"
| "js_mul (Fin a) NegInf = (if a = 0 then NaN else if a > 0 then NegInf else PosInf)"
| "js_mul PosInf (Fin b) = (if b = 0 then NaN else if b > 0 then PosInf else NegInf)"
| "js_mul NegInf (Fin b) = (if b = 0 then NaN else if b > 0 then NegInf else PosInf)"
| "js_mul PosInf PosInf = PosInf"
| "js_mul PosInf NegInf = NegInf"
| "js_mul NegInf PosInf = NegInf"
| "js_mul NegInf NegInf = PosInf"

text \<open>Division never raises in JavaScript: a zero divisor gives an infinity, or NaN for 0/0.\<close>

fun js_div :: "jsnum \<Rightarrow> jsnum \<Rightarrow> jsnum" where
  "js_div (Fin a) (Fin b) =
     (if b \<noteq> 0 then Fin (a / b)
      else if a = 0 then NaN else if a > 0 then PosInf else NegInf)"
| "js_div NaN _ = NaN"
| "js_div _ NaN = NaN"
| "js_div (Fin a) PosInf = Fin 0"
| "js_div (Fin a) NegInf = Fin 0"
| "js_div PosInf (Fin b) = (if b \<ge> 0 then PosInf else NegInf)"
| "js_div NegInf (Fin b) = (if b \<ge> 0 then NegInf else PosInf)"
| "js_div PosInf _ = NaN"
| "js_div NegInf _ = NaN"

fun js_abs :: "jsnum \<Rightarrow> jsnum" where
  "js_abs (Fin a) = Fin \<bar>a\<bar>"
| "js_abs PosInf = PosInf"
| "js_abs NegInf = PosInf"
| "js_abs NaN = NaN"

fun js_sqrt :: "jsnum \<Rightarrow> jsnum" where
  "js_sqrt (Fin a) = (if a < 0 then NaN else Fin (sqrt a))"
| "js_sqrt PosInf = PosInf"
| "js_sqrt NegInf = NaN"
| "js_sqrt NaN = NaN"

text \<open>\<^verbatim>\<open>Math.pow(x, 2)\<close>.\<close>

definition js_pow2 :: "jsnum \<Rightarrow> jsnum" where
  "js_pow2 x = js_mul x x"

text \<open>The comparison \<^verbatim>\<open>x > y\<close>: false as soon as one side is NaN.\<close>

fun js_gt :: "jsnum \<Rightarrow> jsnum \<Rightarrow> bool" where
  "js_gt (Fin a) (Fin b) = (a > b)"
| "js_gt NaN _ = False"
| "js_gt _ NaN = False"
| "js_gt PosInf PosInf = False"
| "js_gt PosInf _ = True"
| "js_gt _ PosInf = False"
| "js_gt NegInf _ = False"
| "js_gt _ NegInf = True"

section \<open>The simple backtest: \<^verbatim>\<open>runSimpleBacktest\<close>\<close>

text \<open>
  This first model computes in exact arithmetic. It serves where rounding cannot change
  a guard or a count; the second model below rounds every operation.

  \<^verbatim>\<open>Math.random\<close> is the only input of the loop besides \<^verbatim>\<open>dataPoints\<close>. It is modelled as
  the sequence \<open>rnd\<close> of the values it returns, \<open>rnd k\<close> being the result of call number
  \<open>k\<close>; the variables of the function carry the number of calls made so far.
\<close>

record bt_vars =
  v_capital :: real
  v_peakCapital :: real
  v_maxDrawdown :: jsnum
  v_totalTrades :: nat
  v_winningTrades :: nat
  v_totalPnL :: real
  v_returns :: "real list"
  v_calls :: nat

definition init_vars :: bt_vars where
  "init_vars =
     \<lparr> v_capital = 1000000, v_peakCapital = 1000000, v_maxDrawdown = Fin 0,
       v_totalTrades = 0, v_winningTrades = 0, v_totalPnL = 0, v_returns = [],
       v_calls = 0 \<rparr>"

text \<open>
  The P\&L of the trade of the iteration that starts in \<open>s\<close>, when the 15 per cent branch
  is taken. The first call of the iteration draws the price change; \<^verbatim>\<open>priceChange\<close> and
  \<^verbatim>\<open>currentPrice\<close> are computed from it (and from the volatility read from the form) and
  never read again, so only the call is kept.
\<close>

definition tradePnL_of :: "(nat \<Rightarrow> real) \<Rightarrow> bt_vars \<Rightarrow> real option" where
  "tradePnL_of rnd s =
     (let k = v_calls s in
      if rnd (k + 1) < 0.15 then
        (let tradeSize = rnd (k + 2) * 100000 in
         Some ((rnd (k + 3) - 0.45) * tradeSize * 0.01))
      else None)"

definition iteration :: "(nat \<Rightarrow> real) \<Rightarrow> bt_vars \<Rightarrow> bt_vars" where
  "iteration rnd s =
     (case tradePnL_of rnd s of
        None \<Rightarrow> s\<lparr> v_calls := v_calls s + 2 \<rparr>
      | Some tradePnL \<Rightarrow>
         (let capital = v_capital s + tradePnL;
              peakCapital = (if capital > v_peakCapital s then capital else v_peakCapital s);
              drawdown = js_div (Fin (peakCapital - capital)) (Fin peakCapital);
              returnRate = (capital - 1000000) / 1000000
          in \<lparr> v_capital = capital,
               v_peakCapital = peakCapital,
               v_maxDrawdown =
                 (if js_gt drawdown (v_maxDrawdown s) then drawdown else v_maxDrawdown s),
               v_totalTrades = v_totalTrades s + 1,
               v_winningTrades =
                 (if tradePnL > 0 then v_winningTrades s + 1 else v_winningTrades s),
               v_totalPnL = v_totalPnL s + tradePnL,
               v_returns = v_returns s @ [returnRate],
               v_calls = v_calls s + 4 \<rparr>))"

text \<open>\<^verbatim>\<open>for (let i = 0; i < dataPoints; i++)\<close>, with \<open>n\<close> the number of iterations left.\<close>

fun loop :: "nat \<Rightarrow> (nat \<Rightarrow> real) \<Rightarrow> bt_vars \<Rightarrow> bt_vars" where
  "loop 0 rnd s = s"
| "loop (Suc n) rnd s = loop n rnd (iteration rnd s)"

text \<open>
  \<^verbatim>\<open>dataPoints\<close> is the result of \<^verbatim>\<open>parseInt\<close>: an integer, or NaN (here \<open>None\<close>), for which
  \<^verbatim>\<open>i < dataPoints\<close> is false at once, as it is for a non-positive integer.
\<close>

definition iterations :: "int option \<Rightarrow> nat" where
  "iterations dataPoints = (case dataPoints of None \<Rightarrow> 0 | Some n \<Rightarrow> nat n)"

record BacktestResult =
  totalReturn :: jsnum
  sharpeRatio :: jsnum
  maxDrawdown :: jsnum
  profitFactor :: jsnum
  calmarRatio :: jsnum
  sortinoRatio :: jsnum
  totalTrades :: nat
  winRate :: jsnum

definition totalReturn_of :: "bt_vars \<Rightarrow> real" where
  "totalReturn_of s = (v_capital s - 1000000) / 1000000"

definition winRate_of :: "bt_vars \<Rightarrow> jsnum" where
  "winRate_of s =
     (if v_totalTrades s > 0
      then js_div (Fin (real (v_winningTrades s))) (Fin (real (v_totalTrades s)))
      else Fin 0)"

definition avgReturn_of :: "real list \<Rightarrow> jsnum" where
  "avgReturn_of rs =
     (if length rs > 0
      then js_div (Fin (foldl (\<lambda>a b. a + b) 0 rs)) (Fin (real (length rs)))
      else Fin 0)"

definition variance_of :: "real list \<Rightarrow> jsnum" where
  "variance_of rs =
     (if length rs > 0
      then js_div
             (foldl (\<lambda>a b. js_add a (js_pow2 (js_sub (Fin b) (avgReturn_of rs)))) (Fin 0) rs)
             (Fin (real (length rs)))
      else Fin 0)"

definition sharpeRatio_of :: "real list \<Rightarrow> jsnum" where
  "sharpeRatio_of rs =
     (if js_gt (variance_of rs) (Fin 0)
      then js_div (avgReturn_of rs) (js_sqrt (variance_of rs))
      else Fin 0)"

definition profitFactor_of :: "bt_vars \<Rightarrow> jsnum" where
  "profitFactor_of s =
     (if v_totalPnL s > 0
      then js_div (Fin (v_totalPnL s))
             (js_abs (js_sub (Fin (v_totalPnL s)) (js_mul (Fin (v_totalPnL s)) (winRate_of s))))
      else Fin 0)"

definition calmarRatio_of :: "bt_vars \<Rightarrow> jsnum" where
  "calmarRatio_of s =
     (if js_gt (v_maxDrawdown s) (Fin 0)
      then js_div (Fin (totalReturn_of s)) (v_maxDrawdown s)
      else Fin 0)"

text \<open>\<^verbatim>\<open>const sortinoRatio = sharpeRatio * 0.8; // Simplified\<close>\<close>

definition sortinoRatio_of :: "real list \<Rightarrow> jsnum" where
  "sortinoRatio_of rs = js_mul (sharpeRatio_of rs) (Fin 0.8)"

definition metrics :: "bt_vars \<Rightarrow> BacktestResult" where
  "metrics s =
     \<lparr> totalReturn = Fin (totalReturn_of s),
       sharpeRatio = sharpeRatio_of (v_returns s),
       maxDrawdown = v_maxDrawdown s,
       profitFactor = profitFactor_of s,
       calmarRatio = calmarRatio_of s,
       sortinoRatio = sortinoRatio_of (v_returns s),
       totalTrades = v_totalTrades s,
       winRate = winRate_of s \<rparr>"

definition final_vars :: "int option \<Rightarrow> (nat \<Rightarrow> real) \<Rightarrow> bt_vars" where
  "final_vars dataPoints rnd = loop (iterations dataPoints) rnd init_vars"

definition runSimpleBacktest :: "int option \<Rightarrow> (nat \<Rightarrow> real) \<Rightarrow> BacktestResult" where
  "runSimpleBacktest dataPoints rnd = metrics (final_vars dataPoints rnd)"

text \<open>A finite script of \<^verbatim>\<open>Math.random\<close> results; calls beyond the script return 1/2.\<close>

definition script :: "real list \<Rightarrow> nat \<Rightarrow> real" where
  "script us k = (if k < length us then us ! k else 1/2)"

text \<open>The three scripted runs used below: two winning trades, a win then a loss, one win.\<close>

definition run_two_wins :: "nat \<Rightarrow> real" where
  "run_two_wins = script [1/2, 1/10, 1/2, 19/20, 1/2, 1/10, 1/2, 19/20]"

definition run_win_loss :: "nat \<Rightarrow> real" where
  "run_win_loss = script [1/2, 1/10, 1/2, 19/20, 1/2, 1/10, 1/2, 1/4]"

definition run_one_win :: "nat \<Rightarrow> real" where
  "run_one_win = script [1/2, 1/10, 1/2, 19/20]"

subsection \<open>What a run did: its trades\<close>

text \<open>
  The function keeps only running totals. To state what the totals are totals of, the
  P\&L of every trade taken is collected along the same iterations.
\<close>

fun trade_pnls :: "nat \<Rightarrow> (nat \<Rightarrow> real) \<Rightarrow> bt_vars \<Rightarrow> real list" where
  "trade_pnls 0 rnd s = []"
| "trade_pnls (Suc n) rnd s =
     (case tradePnL_of rnd s of None \<Rightarrow> [] | Some p \<Rightarrow> [p]) @ trade_pnls n rnd (iteration rnd s)"

definition trades :: "int option \<Rightarrow> (nat \<Rightarrow> real) \<Rightarrow> real list" where
  "trades dataPoints rnd = trade_pnls (iterations dataPoints) rnd init_vars"

text \<open>
  The return recorded after a trade is the return on the initial capital so far.
\<close>

fun cumulative_returns :: "real \<Rightarrow> real list \<Rightarrow> real list" where
  "cumulative_returns capital [] = []"
| "cumulative_returns capital (p # ps) =
     ((capital + p - 1000000) / 1000000) # cumulative_returns (capital + p) ps"

subsection \<open>The statistics the specification names\<close>

text \<open>
  These definitions follow the words of the specification, not the code; the code is
  compared with them below.
\<close>

definition mean :: "real list \<Rightarrow> real" where
  "mean rs = sum_list rs / real (length rs)"

definition pvariance :: "real list \<Rightarrow> real" where
  "pvariance rs = (\<Sum>r\<leftarrow>rs. (r - mean rs)\<^sup>2) / real (length rs)"

text \<open>
  Sharpe = (annualized return - risk free) / annualized volatility, the annualized
  volatility being the square root of variance times annualization factor, as in the
  volatility model.
\<close>

definition sharpe_spec :: "real \<Rightarrow> real \<Rightarrow> real list \<Rightarrow> jsnum" where
  "sharpe_spec annualization_factor risk_free rs =
     js_div (Fin (mean rs * annualization_factor - risk_free))
            (Fin (sqrt (pvariance rs * annualization_factor)))"

text \<open>
  Downside deviation: the root mean square of the deviations below a target, the
  deviations above it counting as zero. Sortino has the numerator of Sharpe over it.
\<close>

definition downside_deviation :: "real \<Rightarrow> real list \<Rightarrow> real" where
  "downside_deviation target rs =
     sqrt ((\<Sum>r\<leftarrow>rs. (min 0 (r - target))\<^sup>2) / real (length rs))"

definition sortino_spec :: "real \<Rightarrow> real list \<Rightarrow> jsnum" where
  "sortino_spec target rs = js_div (Fin (mean rs)) (Fin (downside_deviation target rs))"

definition gross_profit :: "real list \<Rightarrow> real" where
  "gross_profit ps = sum_list (filter (\<lambda>p. p > 0) ps)"

definition gross_loss :: "real list \<Rightarrow> real" where
  "gross_loss ps = \<bar>sum_list (filter (\<lambda>p. p < 0) ps)\<bar>"

definition profit_factor_spec :: "real list \<Rightarrow> jsnum" where
  "profit_factor_spec ps = js_div (Fin (gross_profit ps)) (Fin (gross_loss ps))"

subsection \<open>The invariant of the loop\<close>

definition bt_inv :: "bt_vars \<Rightarrow> bool" where
  "bt_inv s \<longleftrightarrow>
     1000000 \<le> v_peakCapital s \<and> v_capital s \<le> v_peakCapital s \<and>
     (\<exists>d. v_maxDrawdown s = Fin d \<and> 0 \<le> d) \<and>
     length (v_returns s) = v_totalTrades s \<and>
     v_winningTrades s \<le> v_totalTrades s"

section \<open>The simple backtest in double arithmetic\<close>

text \<open>
  The same function with the rounding of IEEE-754 doubles. Each of \<^verbatim>\<open>+\<close>, \<^verbatim>\<open>-\<close>, \<^verbatim>\<open>*\<close>
  and \<^verbatim>\<open>/\<close> returns the double nearest to the exact result, and a decimal literal such
  as \<^verbatim>\<open>0.15\<close> stands for the double nearest to it: both are the function \<open>fl\<close>.
  \<^verbatim>\<open>Math.sqrt\<close> and \<^verbatim>\<open>Math.pow(x, 2)\<close> return a double near the exact value, which an
  implementation may choose, and are functions of their own. Nothing is assumed of the
  three functions, so that what is proved of this model holds whatever the rounding
  is; exact arithmetic is the instance \<open>exact\<close>. The integers 100000 and 1000000, the
  counters and the results of \<^verbatim>\<open>Math.random\<close> are doubles as they are. Overflow to an
  infinity is left out: the capital moves by less than 550 in an iteration.
\<close>

record js_arith =
  fl :: "real \<Rightarrow> real"
  sqrt_fn :: "real \<Rightarrow> real"
  pow2_fn :: "real \<Rightarrow> real"

definition exact :: js_arith where
  "exact = \<lparr> fl = (\<lambda>x. x), sqrt_fn = sqrt, pow2_fn = (\<lambda>x. x * x) \<rparr>"

text \<open>The rounding of a result; an infinity and NaN stay what they are.\<close>

fun js_round :: "js_arith \<Rightarrow> jsnum \<Rightarrow> jsnum" where
  "js_round A (Fin a) = Fin (fl A a)"
| "js_round A PosInf = PosInf"
| "js_round A NegInf = NegInf"
| "js_round A NaN = NaN"

definition r_add :: "js_arith \<Rightarrow> jsnum \<Rightarrow> jsnum \<Rightarrow> jsnum" where
  "r_add A x y = js_round A (js_add x y)"

definition r_sub :: "js_arith \<Rightarrow> jsnum \<Rightarrow> jsnum \<Rightarrow> jsnum" where
  "r_sub A x y = js_round A (js_sub x y)"

definition r_mul :: "js_arith \<Rightarrow> jsnum \<Rightarrow> jsnum \<Rightarrow> jsnum" where
  "r_mul A x y = js_round A (js_mul x y)"

definition r_div :: "js_arith \<Rightarrow> jsnum \<Rightarrow> jsnum \<Rightarrow> jsnum" where
  "r_div A x y = js_round A (js_div x y)"

fun r_sqrt :: "js_arith \<Rightarrow> jsnum \<Rightarrow> jsnum" where
  "r_sqrt A (Fin a) = (if a < 0 then NaN else Fin (sqrt_fn A a))"
| "r_sqrt A PosInf = PosInf"
| "r_sqrt A NegInf = NaN"
| "r_sqrt A NaN = NaN"

fun r_pow2 :: "js_arith \<Rightarrow> jsnum \<Rightarrow> jsnum" where
  "r_pow2 A (Fin a) = Fin (pow2_fn A a)"
| "r_pow2 A PosInf = PosInf"
| "r_pow2 A NegInf = PosInf"
| "r_pow2 A NaN = NaN"

text \<open>
  The iteration, the loop and the metrics as above, with every operation rounded in the
  order in which the source evaluates it.
\<close>

definition tradePnL_fl :: "js_arith \<Rightarrow> (nat \<Rightarrow> real) \<Rightarrow> bt_vars \<Rightarrow> real option" where
  "tradePnL_fl A rnd s =
     (let k = v_calls s in
      if rnd (k + 1) < fl A 0.15 then
        (let tradeSize = fl A (rnd (k + 2) * 100000) in
         Some (fl A (fl A (fl A (rnd (k + 3) - fl A 0.45) * tradeSize) * fl A 0.01)))
      else None)"

definition iteration_fl :: "js_arith \<Rightarrow> (nat \<Rightarrow> real) \<Rightarrow> bt_vars \<Rightarrow> bt_vars" where
  "iteration_fl A rnd s =
     (case tradePnL_fl A rnd s of
        None \<Rightarrow> s\<lparr> v_calls := v_calls s + 2 \<rparr>
      | Some tradePnL \<Rightarrow>
         (let capital = fl A (v_capital s + tradePnL);
              peakCapital = (if capital > v_peakCapital s then capital else v_peakCapital s);
              drawdown = r_div A (Fin (fl A (peakCapital - capital))) (Fin peakCapital);
              returnRate = fl A (fl A (capital - 1000000) / 1000000)
          in \<lparr> v_capital = capital,
               v_peakCapital = peakCapital,
               v_maxDrawdown =
                 (if js_gt drawdown (v_maxDrawdown s) then drawdown else v_maxDrawdown s),
               v_totalTrades = v_totalTrades s + 1,
               v_winningTrades =
                 (if tradePnL > 0 then v_winningTrades s + 1 else v_winningTrades s),
               v_totalPnL = fl A (v_totalPnL s + tradePnL),
               v_returns = v_returns s @ [returnRate],
               v_calls = v_calls s + 4 \<rparr>))"

fun loop_fl :: "js_arith \<Rightarrow> nat \<Rightarrow> (nat \<Rightarrow> real) \<Rightarrow> bt_vars \<Rightarrow> bt_vars" where
  "loop_fl A 0 rnd s = s"
| "loop_fl A (Suc n) rnd s = loop_fl A n rnd (iteration_fl A rnd s)"

definition totalReturn_fl :: "js_arith \<Rightarrow> bt_vars \<Rightarrow> real" where
  "totalReturn_fl A s = fl A (fl A (v_capital s - 1000000) / 1000000)"

definition winRate_fl :: "js_arith \<Rightarrow> bt_vars \<Rightarrow> jsnum" where
  "winRate_fl A s =
     (if v_totalTrades s > 0
      then r_div A (Fin (real (v_winningTrades s))) (Fin (real (v_totalTrades s)))
      else Fin 0)"

definition avgReturn_fl :: "js_arith \<Rightarrow> real list \<Rightarrow> jsnum" where
  "avgReturn_fl A rs =
     (if length rs > 0
      then r_div A (foldl (\<lambda>a b. r_add A a (Fin b)) (Fin 0) rs) (Fin (real (length rs)))
      else Fin 0)"

definition variance_fl :: "js_arith \<Rightarrow> real list \<Rightarrow> jsnum" where
  "variance_fl A rs =
     (if length rs > 0
      then r_div A
             (foldl (\<lambda>a b. r_add A a (r_pow2 A (r_sub A (Fin b) (avgReturn_fl A rs)))) (Fin 0) rs)
             (Fin (real (length rs)))
      else Fin 0)"

definition sharpeRatio_fl :: "js_arith \<Rightarrow> real list \<Rightarrow> jsnum" where
  "sharpeRatio_fl A rs =
     (if js_gt (variance_fl A rs) (Fin 0)
      then r_div A (avgReturn_fl A rs) (r_sqrt A (variance_fl A rs))
      else Fin 0)"

definition profitFactor_fl :: "js_arith \<Rightarrow> bt_vars \<Rightarrow> jsnum" where
  "profitFactor_fl A s =
     (if v_totalPnL s > 0
      then r_div A (Fin (v_totalPnL s))
             (js_abs (r_sub A (Fin (v_totalPnL s)) (r_mul A (Fin (v_totalPnL s)) (winRate_fl A s))))
      else Fin 0)"

definition calmarRatio_fl :: "js_arith \<Rightarrow> bt_vars \<Rightarrow> jsnum" where
  "calmarRatio_fl A s =
     (if js_gt (v_maxDrawdown s) (Fin 0)
      then r_div A (Fin (totalReturn_fl A s)) (v_maxDrawdown s)
      else Fin 0)"

definition sortinoRatio_fl :: "js_arith \<Rightarrow> real list \<Rightarrow> jsnum" where
  "sortinoRatio_fl A rs = r_mul A (sharpeRatio_fl A rs) (Fin (fl A 0.8))"

definition metrics_fl :: "js_arith \<Rightarrow> bt_vars \<Rightarrow> BacktestResult" where
  "metrics_fl A s =
     \<lparr> totalReturn = Fin (totalReturn_fl A s),
       sharpeRatio = sharpeRatio_fl A (v_returns s),
       maxDrawdown = v_maxDrawdown s,
       profitFactor = profitFactor_fl A s,
       calmarRatio = calmarRatio_fl A s,
       sortinoRatio = sortinoRatio_fl A (v_returns s),
       totalTrades = v_totalTrades s,
       winRate = winRate_fl A s \<rparr>"

definition final_vars_fl :: "js_arith \<Rightarrow> int option \<Rightarrow> (nat \<Rightarrow> real) \<Rightarrow> bt_vars" where
  "final_vars_fl A dataPoints rnd = loop_fl A (iterations dataPoints) rnd init_vars"

definition runSimpleBacktest_fl ::
  "js_arith \<Rightarrow> int option \<Rightarrow> (nat \<Rightarrow> real) \<Rightarrow> BacktestResult" where
  "runSimpleBacktest_fl A dataPoints rnd = metrics_fl A (final_vars_fl A dataPoints rnd)"

text \<open>The trades of a run in double arithmetic.\<close>

fun trade_pnls_fl :: "js_arith \<Rightarrow> nat \<Rightarrow> (nat \<Rightarrow> real) \<Rightarrow> bt_vars \<Rightarrow> real list" where
  "trade_pnls_fl A 0 rnd s = []"
| "trade_pnls_fl A (Suc n) rnd s =
     (case tradePnL_fl A rnd s of None \<Rightarrow> [] | Some p \<Rightarrow> [p])
       @ trade_pnls_fl A n rnd (iteration_fl A rnd s)"

definition trades_fl :: "js_arith \<Rightarrow> int option \<Rightarrow> (nat \<Rightarrow> real) \<Rightarrow> real list" where
  "trades_fl A dataPoints rnd = trade_pnls_fl A (iterations dataPoints) rnd init_vars"

text \<open>
  A sum of doubles taken from left to right, starting from 0, and the mean and the
  population variance computed with it.
\<close>

definition fl_sum :: "js_arith \<Rightarrow> real list \<Rightarrow> real" where
  "fl_sum A xs = foldl (\<lambda>a b. fl A (a + b)) 0 xs"

definition fl_mean :: "js_arith \<Rightarrow> real list \<Rightarrow> real" where
  "fl_mean A rs = (if rs = [] then 0 else fl A (fl_sum A rs / real (length rs)))"

definition fl_pvariance :: "js_arith \<Rightarrow> real list \<Rightarrow> real" where
  "fl_pvariance A rs =
     (if rs = [] then 0
      else fl A (fl_sum A (map (\<lambda>r. pow2_fn A (fl A (r - fl_mean A rs))) rs)
                 / real (length rs)))"

section \<open>The dashboard's chart history: \<^verbatim>\<open>updateCharts\<close>\<close>

text \<open>
  A tick as \<^verbatim>\<open>generateSampleMarketData\<close> builds it, and the part of the engine's answer that
  \<^verbatim>\<open>updateCharts\<close> reads. An answer that is \<^verbatim>\<open>null\<close> or \<^verbatim>\<open>undefined\<close> is \<open>None\<close>, and so is
  a member that is absent. The numbers are taken finite.
\<close>

record MarketTick =
  symbol :: string
  timestamp :: int
  last_price :: real
  bid_price :: real
  ask_price :: real
  bid_size :: real
  ask_size :: real
  volume :: real

record RiskMetrics =
  net_exposure :: real

record LatencyStats =
  avg_processing :: real
  avg_network :: real

record engine_result =
  risk_metrics :: "RiskMetrics option"
  volatility :: real
  latency_stats :: "LatencyStats option"

record charts =
  priceData :: "real list"
  pnlData :: "real list"
  volatilityData :: "real list"
  latencyData :: "real list"

definition empty_charts :: charts where
  "empty_charts = \<lparr> priceData = [], pnlData = [], volatilityData = [], latencyData = [] \<rparr>"

text \<open>\<^verbatim>\<open>Array.prototype.shift\<close> removes the first element; on an empty array it does nothing.\<close>

definition shift :: "'a list \<Rightarrow> 'a list" where
  "shift xs = (case xs of [] \<Rightarrow> [] | x # rest \<Rightarrow> rest)"

text \<open>\<^verbatim>\<open>xs.push(v); if (xs.length > 50) xs.shift();\<close>\<close>

definition push_capped :: "real list \<Rightarrow> real \<Rightarrow> real list" where
  "push_capped xs v = (let ys = xs @ [v] in if length ys > 50 then shift ys else ys)"

text \<open>
  The price is pushed on every call and the exposure only when the answer has risk
  metrics; both arrays are shifted when the price array has more than 50 entries. The
  chart objects only alias the four arrays and are left out.
\<close>

definition updateCharts :: "MarketTick \<Rightarrow> engine_result option \<Rightarrow> charts \<Rightarrow> charts" where
  "updateCharts marketData result c =
     (let priceData1 = priceData c @ [last_price marketData];
          pnlData1 =
            (case result of
               None \<Rightarrow> pnlData c
             | Some r \<Rightarrow>
                (case risk_metrics r of
                   None \<Rightarrow> pnlData c
                 | Some m \<Rightarrow> pnlData c @ [net_exposure m]));
          overflow = (length priceData1 > 50)
      in \<lparr> priceData = (if overflow then shift priceData1 else priceData1),
           pnlData = (if overflow then shift pnlData1 else pnlData1),
           volatilityData =
             (case result of
                None \<Rightarrow> volatilityData c
              | Some r \<Rightarrow> push_capped (volatilityData c) (volatility r)),
           latencyData =
             (case result of
                None \<Rightarrow> latencyData c
              | Some r \<Rightarrow>
                 (case latency_stats r of
                    None \<Rightarrow> latencyData c
                  | Some l \<Rightarrow>
                     push_capped (latencyData c) ((avg_processing l + avg_network l) / 2))) \<rparr>)"







text \<open>One call whose answer carries an exposure, then fifty whose answers carry none.\<close>

definition tick0 :: MarketTick where
  "tick0 = \<lparr> symbol = ''NIFTY'', timestamp = 0, last_price = 18500, bid_price = 18499,
             ask_price = 18501, bid_size = 100, ask_size = 100, volume = 1000 \<rparr>"


definition result_no_pnl :: engine_result where
  "result_no_pnl = \<lparr> risk_metrics = None, volatility = 1/10, latency_stats = None \<rparr>"


section \<open>The input boundary: ticks handed to the engine\<close>

datatype engine_error = ValidationError

text \<open>
  Modelled from the spec: the malformed ticks of the input boundary, crossed prices or a
  non-positive size. The check belongs to the engine, \<^verbatim>\<open>HFTEngine\<close> of
  \<^verbatim>\<open>./pkg/hft_market_maker.js\<close>, which is compiled code without its sources; the script
  itself never looks at these fields.
\<close>

definition malformed :: "MarketTick \<Rightarrow> bool" where
  "malformed t \<longleftrightarrow> bid_price t \<ge> ask_price t \<or> bid_size t \<le> 0 \<or> ask_size t \<le> 0"

text \<open>
  Modelled from the spec: \<^verbatim>\<open>HFTEngine.process_market_data\<close>, of which the script has
  only the calls. A malformed tick is rejected with a validation error and the engine state is
  left as it was; any other tick goes through the engine's pipeline, which is a
  parameter here. The error reaches the script as an exception, as the
  \<^verbatim>\<open>try\<close>/\<^verbatim>\<open>catch\<close> around the call in the simple-backtest handler expects.
\<close>

definition process_market_data ::
  "(MarketTick \<Rightarrow> 'e \<Rightarrow> engine_result option \<times> 'e) \<Rightarrow> MarketTick \<Rightarrow> 'e
     \<Rightarrow> (engine_error + engine_result option) \<times> 'e" where
  "process_market_data pipeline tick e =
     (if malformed tick then (Inl ValidationError, e)
      else (case pipeline tick e of (result, e') \<Rightarrow> (Inr result, e')))"

text \<open>
  The callback of \<^verbatim>\<open>startDataGeneration\<close>, run every 100 ms, on the tick that
  \<^verbatim>\<open>generateSampleMarketData\<close> returned. An exception of the engine leaves the callback
  before \<^verbatim>\<open>updateCharts\<close>. The state is the engine and the chart arrays;
  \<^verbatim>\<open>updateMetrics\<close>, \<^verbatim>\<open>updateOrderBookDisplay\<close> and \<^verbatim>\<open>log\<close> write page text and
  trade counters only and are left out.
\<close>

record 'e dashboard =
  engine :: "'e option"
  isRunning :: bool
  chart_data :: charts

definition interval_callback ::
  "(MarketTick \<Rightarrow> 'e \<Rightarrow> engine_result option \<times> 'e) \<Rightarrow> MarketTick \<Rightarrow> 'e dashboard
     \<Rightarrow> (engine_error + unit) \<times> 'e dashboard" where
  "interval_callback pipeline marketData d =
     (case engine d of
        None \<Rightarrow> (Inr (), d)
      | Some e \<Rightarrow>
         if \<not> isRunning d then (Inr (), d)
         else
           (case process_market_data pipeline marketData e of
              (Inl err, e') \<Rightarrow> (Inl err, d\<lparr> engine := Some e' \<rparr>)
            | (Inr result, e') \<Rightarrow>
                (Inr (), d\<lparr> engine := Some e',
                           chart_data := updateCharts marketData result (chart_data d) \<rparr>)))"

text \<open>
  \<^verbatim>\<open>generateSampleMarketData\<close>: seven calls of \<^verbatim>\<open>Math.random\<close>, first for the base price
  and then for the members in the order of the object literal. The symbol and the
  volatility are read from the form, the time stamp from the clock.
\<close>

definition generateSampleMarketData ::
  "string \<Rightarrow> int \<Rightarrow> real \<Rightarrow> (nat \<Rightarrow> real) \<Rightarrow> MarketTick" where
  "generateSampleMarketData symbol_value now volatility_value rnd =
     (let basePrice = 18450 + rnd 0 * 100 in
      \<lparr> symbol = symbol_value,
        timestamp = now,
        last_price = basePrice + (rnd 1 - 0.5) * basePrice * volatility_value,
        bid_price = basePrice - rnd 2 * 2,
        ask_price = basePrice + rnd 3 * 2,
        bid_size = 100 + rnd 4 * 500,
        ask_size = 100 + rnd 5 * 500,
        volume = 1000 + rnd 6 * 5000 \<rparr>)"

text \<open>
  A crossed tick, which the generator returns when both of its spread draws are 0. The
  pipeline of the example counts the ticks it has processed.
\<close>

definition crossed_tick :: MarketTick where
  "crossed_tick = \<lparr> symbol = ''NIFTY'', timestamp = 0, last_price = 18500, bid_price = 18500,
                    ask_price = 18500, bid_size = 100, ask_size = 100, volume = 1000 \<rparr>"

definition counting_pipeline :: "MarketTick \<Rightarrow> nat \<Rightarrow> engine_result option \<times> nat" where
  "counting_pipeline t n = (Some result_no_pnl, n + 1)"

section \<open>The backtest button: \<^verbatim>\<open>runBacktest\<close> and \<^verbatim>\<open>showSimulatedBacktestResults\<close>\<close>

text \<open>
  The value of a member of the object that \<^verbatim>\<open>engine.run_backtest\<close> returns: absent
  (\<^verbatim>\<open>undefined\<close>), \<^verbatim>\<open>null\<close>, a boolean or a number. Strings and nested objects are not
  modelled.
\<close>

datatype field_val = FUndefined | FNull | FBool bool | FNum jsnum

fun truthy :: "field_val \<Rightarrow> bool" where
  "truthy FUndefined = False"
| "truthy FNull = False"
| "truthy (FBool b) = b"
| "truthy (FNum (Fin a)) = (a \<noteq> 0)"
| "truthy (FNum NaN) = False"
| "truthy (FNum PosInf) = True"
| "truthy (FNum NegInf) = True"

text \<open>\<^verbatim>\<open>v || 0\<close>\<close>

definition or_zero :: "field_val \<Rightarrow> field_val" where
  "or_zero v = (if truthy v then v else FNum (Fin 0))"

text \<open>The conversion that \<^verbatim>\<open>v * 100\<close> applies to \<open>v\<close>.\<close>

fun to_number :: "field_val \<Rightarrow> jsnum" where
  "to_number FUndefined = NaN"
| "to_number FNull = Fin 0"
| "to_number (FBool b) = Fin (if b then 1 else 0)"
| "to_number (FNum x) = x"

text \<open>
  The text of a page element is kept unformatted: \<open>Fixed x d u\<close> stands for the string
  \<^verbatim>\<open>x.toFixed(d) + u\<close>, \<open>Plain v\<close> for the string of the value \<open>v\<close>. The method
  \<^verbatim>\<open>toFixed\<close> exists on numbers only; calling it on anything else throws a TypeError,
  here \<open>None\<close>.
\<close>

datatype cell = Text string | Fixed jsnum nat string | Plain field_val

definition toFixed :: "field_val \<Rightarrow> nat \<Rightarrow> string \<Rightarrow> cell option" where
  "toFixed v digits unit = (case v of FNum x \<Rightarrow> Some (Fixed x digits unit) | _ \<Rightarrow> None)"

record wasm_results =
  total_return :: field_val
  sharpe_ratio :: field_val
  max_drawdown :: field_val
  profit_factor :: field_val
  calmar_ratio :: field_val
  sortino_ratio :: field_val
  total_trades :: field_val
  win_rate :: field_val

text \<open>
  What the call of the engine did: it threw, or it returned a value, which is an object
  with the members above or anything else (\<^verbatim>\<open>null\<close>, \<^verbatim>\<open>undefined\<close>, a primitive), for which
  \<^verbatim>\<open>!results || typeof results !== 'object'\<close> holds. Of a thrown value the handler reads
  \<^verbatim>\<open>wasmError.message\<close>: that read throws a TypeError of its own when the value is
  \<^verbatim>\<open>null\<close> or \<^verbatim>\<open>undefined\<close>; the other case stands for every value whose message can
  be read and printed, such as an Error object or a string.
\<close>

datatype backtest_return = NotAnObject | ResultObject wasm_results

datatype thrown = ThrownNullish | ThrownOther

datatype backtest_outcome = Throws thrown | Returns backtest_return

text \<open>The TypeError of reading \<^verbatim>\<open>.message\<close> of \<^verbatim>\<open>null\<close> or \<^verbatim>\<open>undefined\<close>.\<close>

datatype click_exception = MessageOfNullish

text \<open>The eight result elements of the page and the status line.\<close>

record panel =
  el_totalReturn :: cell
  el_sharpeRatio :: cell
  el_maxDrawdown :: cell
  el_profitFactor :: cell
  el_calmarRatio :: cell
  el_sortinoRatio :: cell
  el_totalTrades :: cell
  el_winRate :: cell
  el_statusText :: string

text \<open>The eight calls of \<^verbatim>\<open>Math.random\<close> are \<open>rnd 0\<close> to \<open>rnd 7\<close>, in the order of the source.\<close>

definition showSimulatedBacktestResults :: "(nat \<Rightarrow> real) \<Rightarrow> panel \<Rightarrow> panel" where
  "showSimulatedBacktestResults rnd p =
     (let totalReturn = rnd 0 * 0.4 - 0.1;
          sharpeRatio = rnd 1 * 2 + 0.5;
          maxDrawdown = rnd 2 * 0.15 + 0.05;
          profitFactor = rnd 3 * 2 + 0.8;
          calmarRatio = rnd 4 * 3 + 0.5;
          sortinoRatio = rnd 5 * 2.5 + 0.5;
          totalTrades = real_of_int \<lfloor>rnd 6 * 500\<rfloor> + 100;
          winRate = rnd 7 * 0.3 + 0.5
      in p\<lparr> el_totalReturn := Fixed (Fin (totalReturn * 100)) 2 ''%'',
             el_sharpeRatio := Fixed (Fin sharpeRatio) 3 '''',
             el_maxDrawdown := Fixed (Fin (maxDrawdown * 100)) 2 ''%'',
             el_profitFactor := Fixed (Fin profitFactor) 2 '''',
             el_calmarRatio := Fixed (Fin calmarRatio) 3 '''',
             el_sortinoRatio := Fixed (Fin sortinoRatio) 3 '''',
             el_totalTrades := Plain (FNum (Fin totalTrades)),
             el_winRate := Fixed (Fin (winRate * 100)) 1 ''%'' \<rparr>)"

text \<open>
  The inner \<^verbatim>\<open>try\<close> block that writes the result to the page, one element after the
  other. The flag tells whether a TypeError left the block, and the panel is then the
  page as the exception found it.
\<close>

definition show_results :: "wasm_results \<Rightarrow> panel \<Rightarrow> panel \<times> bool" where
  "show_results results p =
     (let totalReturn = or_zero (total_return results);
          sharpeRatio = or_zero (sharpe_ratio results);
          maxDrawdown = or_zero (max_drawdown results);
          profitFactor = or_zero (profit_factor results);
          calmarRatio = or_zero (calmar_ratio results);
          sortinoRatio = or_zero (sortino_ratio results);
          totalTrades = or_zero (total_trades results);
          winRate = or_zero (win_rate results);
          p1 = p\<lparr> el_totalReturn := Fixed (js_mul (to_number totalReturn) (Fin 100)) 2 ''%'' \<rparr>
      in case toFixed sharpeRatio 3 '''' of
           None \<Rightarrow> (p1, True)
         | Some c2 \<Rightarrow>
            (let p3 = p1\<lparr> el_sharpeRatio := c2,
                           el_maxDrawdown :=
                             Fixed (js_mul (to_number maxDrawdown) (Fin 100)) 2 ''%'' \<rparr>
             in case toFixed profitFactor 2 '''' of
                  None \<Rightarrow> (p3, True)
                | Some c4 \<Rightarrow>
                   (let p4 = p3\<lparr> el_profitFactor := c4 \<rparr>
                    in case toFixed calmarRatio 3 '''' of
                         None \<Rightarrow> (p4, True)
                       | Some c5 \<Rightarrow>
                          (let p5 = p4\<lparr> el_calmarRatio := c5 \<rparr>
                           in case toFixed sortinoRatio 3 '''' of
                                None \<Rightarrow> (p5, True)
                              | Some c6 \<Rightarrow>
                                 (p5\<lparr> el_sortinoRatio := c6,
                                       el_totalTrades := Plain totalTrades,
                                       el_winRate :=
                                         Fixed (js_mul (to_number winRate) (Fin 100)) 1 ''%'',
                                       el_statusText := ''Backtest Complete'' \<rparr>,
                                  False)))))"

text \<open>
  The body of the outer \<^verbatim>\<open>try\<close> block of the click handler, on the page \<open>p0\<close> as it is
  when the block is entered: the page it leaves, or the exception that escapes it
  together with the page at that moment. The ticks are the generated \<^verbatim>\<open>historicalData\<close>;
  the engine receives a field-by-field copy of them. An exception of the engine call is
  caught by the inner handler, which logs \<^verbatim>\<open>wasmError.message\<close> and sets \<^verbatim>\<open>results\<close> to
  \<^verbatim>\<open>null\<close>; when the thrown value is \<^verbatim>\<open>null\<close> or \<^verbatim>\<open>undefined\<close> the handler itself throws
  before it does so. \<^verbatim>\<open>log\<close>, \<^verbatim>\<open>updateStatus\<close> and the writes to the page do not throw.
\<close>

definition backtest_try ::
  "(MarketTick list \<Rightarrow> backtest_outcome) \<Rightarrow> MarketTick list \<Rightarrow> (nat \<Rightarrow> real)
     \<Rightarrow> panel \<Rightarrow> (click_exception \<times> panel) + panel" where
  "backtest_try run_backtest historicalData rnd p0 =
     (case (case run_backtest historicalData of
              Returns v \<Rightarrow> Inr v
            | Throws wasmError \<Rightarrow>
                (case wasmError of
                   ThrownNullish \<Rightarrow> Inl MessageOfNullish
                 | ThrownOther \<Rightarrow> Inr NotAnObject))
      of
        Inl error \<Rightarrow> Inl (error, p0)
      | Inr results \<Rightarrow>
          (case results of
             NotAnObject \<Rightarrow>
               Inr ((showSimulatedBacktestResults rnd p0)
                      \<lparr> el_statusText := ''Backtest Complete (Simulated)'' \<rparr>)
           | ResultObject r \<Rightarrow>
               (case show_results r p0 of
                  (p1, False) \<Rightarrow> Inr p1
                | (p1, True) \<Rightarrow> Inr (showSimulatedBacktestResults rnd p1))))"

text \<open>
  The click handler. Without an engine it only logs. An exception that escapes the
  \<^verbatim>\<open>try\<close> block is caught by the outer handler, which shows the substitute values too
  and sets the status to "Backtest Failed - Using Simulated Results".
\<close>

definition runBacktest_click ::
  "(MarketTick list \<Rightarrow> backtest_outcome) option \<Rightarrow> MarketTick list \<Rightarrow> (nat \<Rightarrow> real)
     \<Rightarrow> panel \<Rightarrow> panel" where
  "runBacktest_click wasm_engine historicalData rnd p =
     (case wasm_engine of
        None \<Rightarrow> p
      | Some run_backtest \<Rightarrow>
         (case backtest_try run_backtest historicalData rnd
                 (p\<lparr> el_statusText := ''Running Backtest'' \<rparr>) of
            Inr p' \<Rightarrow> p'
          | Inl (error, p') \<Rightarrow>
              (showSimulatedBacktestResults rnd p')
                \<lparr> el_statusText := ''Backtest Failed - Using Simulated Results'' \<rparr>))"

text \<open>The eight result elements, and what they show for a returned result.\<close>

definition cells :: "panel \<Rightarrow> cell list" where
  "cells p = [el_totalReturn p, el_sharpeRatio p, el_maxDrawdown p, el_profitFactor p,
              el_calmarRatio p, el_sortinoRatio p, el_totalTrades p, el_winRate p]"

definition result_cells :: "wasm_results \<Rightarrow> cell list" where
  "result_cells r =
     [Fixed (js_mul (to_number (or_zero (total_return r))) (Fin 100)) 2 ''%'',
      Fixed (to_number (or_zero (sharpe_ratio r))) 3 '''',
      Fixed (js_mul (to_number (or_zero (max_drawdown r))) (Fin 100)) 2 ''%'',
      Fixed (to_number (or_zero (profit_factor r))) 2 '''',
      Fixed (to_number (or_zero (calmar_ratio r))) 3 '''',
      Fixed (to_number (or_zero (sortino_ratio r))) 3 '''',
      Plain (or_zero (total_trades r)),
      Fixed (js_mul (to_number (or_zero (win_rate r))) (Fin 100)) 1 ''%'']"

definition blank_panel :: panel where
  "blank_panel = \<lparr> el_totalReturn = Text ''-'', el_sharpeRatio = Text ''-'',
       el_maxDrawdown = Text ''-'', el_profitFactor = Text ''-'', el_calmarRatio = Text ''-'',
       el_sortinoRatio = Text ''-'', el_totalTrades = Text ''0'', el_winRate = Text ''0.0%'',
       el_statusText = ''System Stopped'' \<rparr>"

definition simulated_cells :: "(nat \<Rightarrow> real) \<Rightarrow> cell list" where
  "simulated_cells rnd = cells (showSimulatedBacktestResults rnd blank_panel)"

text \<open>None of the four members that are formatted directly is \<^verbatim>\<open>true\<close>.\<close>

definition formattable :: "wasm_results \<Rightarrow> bool" where
  "formattable r \<longleftrightarrow>
     sharpe_ratio r \<noteq> FBool True \<and> profit_factor r \<noteq> FBool True \<and>
     calmar_ratio r \<noteq> FBool True \<and> sortino_ratio r \<noteq> FBool True"

definition good_results :: wasm_results where
  "good_results = \<lparr> total_return = FNum (Fin (1/20)), sharpe_ratio = FNum (Fin (3/2)),
       max_drawdown = FNum (Fin (1/50)), profit_factor = FNum (Fin 2),
       calmar_ratio = FNum (Fin (5/2)), sortino_ratio = FUndefined,
       total_trades = FNum (Fin 42), win_rate = FNum (Fin (3/5)) \<rparr>"

definition engine_throws :: "MarketTick list \<Rightarrow> backtest_outcome" where
  "engine_throws ticks = Throws ThrownOther"

definition engine_throws_null :: "MarketTick list \<Rightarrow> backtest_outcome" where
  "engine_throws_null ticks = Throws ThrownNullish"

definition bad_results :: wasm_results where
  "bad_results = \<lparr> total_return = FNum (Fin (1/20)), sharpe_ratio = FNum (Fin (3/2)),
       max_drawdown = FNum (Fin (1/50)), profit_factor = FBool True,
       calmar_ratio = FNum (Fin (5/2)), sortino_ratio = FUndefined,
       total_trades = FNum (Fin 42), win_rate = FNum (Fin (3/5)) \<rparr>"

definition engine_returns_bad :: "MarketTick list \<Rightarrow> backtest_outcome" where
  "engine_returns_bad ticks = Returns (ResultObject bad_results)"

definition engine_returns_good :: "MarketTick list \<Rightarrow> backtest_outcome" where
  "engine_returns_good ticks = Returns (ResultObject good_results)"

section \<open>The chat endpoint: \<^verbatim>\<open>app.post('/chat')\<close>\<close>

text \<open>
  The request body is the object parsed by \<^verbatim>\<open>express.json()\<close>, a finite map from member
  names to JSON values. Strings are ASCII text.
\<close>

datatype json =
    JNull | JBool bool | JNumber real | JString string
  | JArray "json list" | JObject "(string \<times> json) list"

fun truthy_json :: "json \<Rightarrow> bool" where
  "truthy_json JNull = False"
| "truthy_json (JBool b) = b"
| "truthy_json (JNumber x) = (x \<noteq> 0)"
| "truthy_json (JString s) = (s \<noteq> [])"
| "truthy_json (JArray xs) = True"
| "truthy_json (JObject kvs) = True"

definition lower_char :: "char \<Rightarrow> char" where
  "lower_char c =
     (case map_of (zip ''ABCDEFGHIJKLMNOPQRSTUVWXYZ'' ''abcdefghijklmnopqrstuvwxyz'') c of
        Some l \<Rightarrow> l
      | None \<Rightarrow> c)"

definition toLowerCase :: "string \<Rightarrow> string" where
  "toLowerCase s = map lower_char s"

text \<open>\<^verbatim>\<open>haystack.includes(needle)\<close>: the needle occurs as a contiguous part.\<close>

fun includes_str :: "string \<Rightarrow> string \<Rightarrow> bool" where
  "includes_str [] needle = (needle = [])"
| "includes_str (c # cs) needle = (prefix needle (c # cs) \<or> includes_str cs needle)"

definition reply_for :: "string \<Rightarrow> string" where
  "reply_for message =
     (let lowerMessage = toLowerCase message in
      if includes_str lowerMessage ''hello'' \<or> includes_str lowerMessage ''hi'' then
        ''Hello! I'm your HFT trading assistant. How can I help you today?''
      else if includes_str lowerMessage ''start'' \<or> includes_str lowerMessage ''run'' then
        ''I can help you start the engine. Click the '' @ [CHR 0x22] @ ''Start Engine''
          @ [CHR 0x22] @ '' button to begin trading operations.''
      else if includes_str lowerMessage ''backtest'' \<or> includes_str lowerMessage ''test'' then
        ''To run a backtest, click the '' @ [CHR 0x22] @ ''Run Backtest'' @ [CHR 0x22]
          @ '' button. You can adjust the number of data points in the parameters section.''
      else if includes_str lowerMessage ''metrics'' \<or> includes_str lowerMessage ''performance'' then
        ''The performance metrics are displayed in the dashboard. You can see portfolio value, PnL, risk scores, and more.''
      else if includes_str lowerMessage ''latency'' \<or> includes_str lowerMessage ''speed'' then
        ''Latency optimization tools are available in the '' @ [CHR 0x22]
          @ ''Latency Optimization'' @ [CHR 0x22]
          @ '' section. You can benchmark performance and simulate FPGA/GPU acceleration.''
      else if includes_str lowerMessage ''risk'' \<or> includes_str lowerMessage ''var'' then
        ''Risk metrics including VaR, Expected Shortfall, and leverage are shown in the ''
          @ [CHR 0x22] @ ''Risk Metrics'' @ [CHR 0x22] @ '' section.''
      else if includes_str lowerMessage ''order book'' \<or> includes_str lowerMessage ''l2'' then
        ''The order book shows live L2 market data. It's displayed in the '' @ [CHR 0x22]
          @ ''Order Book'' @ [CHR 0x22] @ '' section with bid/ask levels.''
      else if includes_str lowerMessage ''volatility'' \<or> includes_str lowerMessage ''vol'' then
        ''Volatility is tracked in real-time and displayed in the '' @ [CHR 0x22]
          @ ''Volatility & Risk'' @ [CHR 0x22]
          @ '' chart. The system uses EWMA and GARCH models.''
      else if includes_str lowerMessage ''help'' \<or> includes_str lowerMessage ''what can you do'' then
        ''I can help you navigate the interface, explain features, and guide you through using the HFT trading system. Try asking about metrics, backtesting, latency, or risk management.''
      else
        ''I understand you're asking about: '' @ [CHR 0x22] @ message @ [CHR 0x22]
          @ ''. Could you please be more specific about what you'd like to know about the HFT trading system?'')"

datatype response_body = ErrorBody string | ReplyBody string

record response =
  status :: nat
  body :: response_body

text \<open>
  A message that is neither falsy nor a string has no \<^verbatim>\<open>toLowerCase\<close> method, and the
  handler throws a TypeError instead of responding.
\<close>

datatype js_exception = TypeError

definition chat :: "(string \<rightharpoonup> json) \<Rightarrow> js_exception + response" where
  "chat req_body =
     (case req_body ''message'' of
        None \<Rightarrow> Inr \<lparr> status = 400, body = ErrorBody ''Message is required'' \<rparr>
      | Some message \<Rightarrow>
          if \<not> truthy_json message
          then Inr \<lparr> status = 400, body = ErrorBody ''Message is required'' \<rparr>
          else (case message of
                  JString s \<Rightarrow> Inr \<lparr> status = 200, body = ReplyBody (reply_for s) \<rparr>
                | _ \<Rightarrow> Inl TypeError))"

section \<open>Properties of the simple backtest\<close>

subsection \<open>The loop\<close>

lemma bt_inv_init: "bt_inv init_vars"
  by (simp add: bt_inv_def init_vars_def)

lemma bt_inv_iteration: "bt_inv s \<Longrightarrow> bt_inv (iteration rnd s)"
  unfolding bt_inv_def iteration_def
  by (cases "tradePnL_of rnd s") (auto simp: Let_def)

lemma bt_inv_loop: "bt_inv s \<Longrightarrow> bt_inv (loop n rnd s)"
  by (induction n arbitrary: s) (simp_all add: bt_inv_iteration)

lemma bt_inv_final: "bt_inv (final_vars dp rnd)"
  by (simp add: final_vars_def bt_inv_loop bt_inv_init)

text \<open>The running totals are the totals of the trades taken.\<close>

lemma totalTrades_loop:
  "v_totalTrades (loop n rnd s) = v_totalTrades s + length (trade_pnls n rnd s)"
  by (induction n arbitrary: s) (auto simp: iteration_def Let_def split: option.splits)

lemma winningTrades_loop:
  "v_winningTrades (loop n rnd s) = v_winningTrades s + length (filter (\<lambda>p. p > 0) (trade_pnls n rnd s))"
  by (induction n arbitrary: s) (auto simp: iteration_def Let_def split: option.splits)

lemma totalPnL_loop:
  "v_totalPnL (loop n rnd s) = v_totalPnL s + sum_list (trade_pnls n rnd s)"
  by (induction n arbitrary: s) (auto simp: iteration_def Let_def split: option.splits)

lemma capital_loop:
  "v_capital (loop n rnd s) = v_capital s + sum_list (trade_pnls n rnd s)"
  by (induction n arbitrary: s) (auto simp: iteration_def Let_def split: option.splits)

lemma final_totalTrades: "v_totalTrades (final_vars dp rnd) = length (trades dp rnd)"
  by (simp add: final_vars_def trades_def totalTrades_loop init_vars_def)

lemma final_winningTrades:
  "v_winningTrades (final_vars dp rnd) = length (filter (\<lambda>p. p > 0) (trades dp rnd))"
  by (simp add: final_vars_def trades_def winningTrades_loop init_vars_def)

lemma final_totalPnL: "v_totalPnL (final_vars dp rnd) = sum_list (trades dp rnd)"
  by (simp add: final_vars_def trades_def totalPnL_loop init_vars_def)

lemma final_capital: "v_capital (final_vars dp rnd) = 1000000 + sum_list (trades dp rnd)"
  by (simp add: final_vars_def trades_def capital_loop init_vars_def)

lemma returns_loop:
  "v_returns (loop n rnd s) = v_returns s @ cumulative_returns (v_capital s) (trade_pnls n rnd s)"
  by (induction n arbitrary: s) (auto simp: iteration_def Let_def split: option.splits)

lemma final_returns:
  "v_returns (final_vars dp rnd) = cumulative_returns 1000000 (trades dp rnd)"
  by (simp add: final_vars_def trades_def returns_loop init_vars_def)

lemma no_trades_vars:
  "v_totalTrades (loop n rnd s) = v_totalTrades s \<Longrightarrow>
     loop n rnd s = s\<lparr> v_calls := v_calls (loop n rnd s) \<rparr>"
proof (induction n arbitrary: s)
  case 0
  then show ?case by simp
next
  case (Suc n)
  have mono: "v_totalTrades (iteration rnd s) \<le> v_totalTrades (loop n rnd (iteration rnd s))"
    by (simp add: totalTrades_loop)
  show ?case
  proof (cases "tradePnL_of rnd s")
    case None
    then have it: "iteration rnd s = s\<lparr> v_calls := v_calls s + 2 \<rparr>"
      by (simp add: iteration_def)
    have "v_totalTrades (loop n rnd (iteration rnd s)) = v_totalTrades (iteration rnd s)"
      using Suc.prems it by simp
    then have "loop n rnd (iteration rnd s)
        = (iteration rnd s)\<lparr> v_calls := v_calls (loop n rnd (iteration rnd s)) \<rparr>"
      by (rule Suc.IH)
    then show ?thesis using it by simp
  next
    case (Some p)
    then have "v_totalTrades (iteration rnd s) = v_totalTrades s + 1"
      by (simp add: iteration_def Let_def)
    with mono Suc.prems show ?thesis by simp
  qed
qed

lemma final_no_trades:
  assumes "trades dp rnd = []"
  shows "final_vars dp rnd = init_vars\<lparr> v_calls := v_calls (final_vars dp rnd) \<rparr>"
proof -
  have "v_totalTrades (loop (iterations dp) rnd init_vars) = v_totalTrades init_vars"
    using assms final_totalTrades [of dp rnd] by (simp add: final_vars_def init_vars_def)
  then show ?thesis unfolding final_vars_def by (rule no_trades_vars)
qed

subsection \<open>Mean, variance and the Sharpe ratio of the code\<close>

lemma foldl_plus: "foldl (\<lambda>a b. a + b) (a::real) rs = a + sum_list rs"
  by (induction rs arbitrary: a) simp_all

lemma avgReturn_of_mean: "avgReturn_of rs = Fin (mean rs)"
  by (simp add: avgReturn_of_def mean_def foldl_plus)

lemma foldl_sq:
  "foldl (\<lambda>a b. js_add a (js_pow2 (js_sub (Fin b) (Fin m)))) (Fin a) rs
     = Fin (a + (\<Sum>r\<leftarrow>rs. (r - m)\<^sup>2))"
  by (induction rs arbitrary: a) (simp_all add: js_pow2_def js_sub_def power2_eq_square)

lemma variance_of_pvariance: "variance_of rs = Fin (pvariance rs)"
  by (simp add: variance_of_def pvariance_def avgReturn_of_mean foldl_sq)

lemma pvariance_nonneg: "0 \<le> pvariance rs"
  by (auto simp: pvariance_def intro!: divide_nonneg_nonneg sum_list_nonneg)

lemma pvariance_Nil: "pvariance [] = 0"
  by (simp add: pvariance_def)

lemma sharpeRatio_of_eq:
  "sharpeRatio_of rs = (if pvariance rs > 0 then Fin (mean rs / sqrt (pvariance rs)) else Fin 0)"
  by (simp add: sharpeRatio_of_def variance_of_pvariance avgReturn_of_mean)

lemma winRate_final:
  "winRate_of (final_vars dp rnd) =
     (if trades dp rnd = [] then Fin 0
      else Fin (real (length (filter (\<lambda>p. p > 0) (trades dp rnd))) / real (length (trades dp rnd))))"
  by (simp add: winRate_of_def final_totalTrades final_winningTrades)

subsection \<open>The scripted runs\<close>

lemma final_two_wins:
  "final_vars (Some 2) run_two_wins =
     \<lparr> v_capital = 1000500, v_peakCapital = 1000500, v_maxDrawdown = Fin 0,
       v_totalTrades = 2, v_winningTrades = 2, v_totalPnL = 500,
       v_returns = [1/4000, 1/2000], v_calls = 8 \<rparr>"
  by (simp add: final_vars_def iterations_def run_two_wins_def script_def init_vars_def
      eval_nat_numeral iteration_def tradePnL_of_def Let_def)

lemma trades_two_wins: "trades (Some 2) run_two_wins = [250, 250]"
  by (simp add: trades_def iterations_def run_two_wins_def script_def init_vars_def
      eval_nat_numeral iteration_def tradePnL_of_def Let_def)

lemma final_win_loss:
  "final_vars (Some 2) run_win_loss =
     \<lparr> v_capital = 1000150, v_peakCapital = 1000250, v_maxDrawdown = Fin (100 / 1000250),
       v_totalTrades = 2, v_winningTrades = 1, v_totalPnL = 150,
       v_returns = [1/4000, 3/20000], v_calls = 8 \<rparr>"
  by (simp add: final_vars_def iterations_def run_win_loss_def script_def init_vars_def
      eval_nat_numeral iteration_def tradePnL_of_def Let_def)

lemma trades_win_loss: "trades (Some 2) run_win_loss = [250, -100]"
  by (simp add: trades_def iterations_def run_win_loss_def script_def init_vars_def
      eval_nat_numeral iteration_def tradePnL_of_def Let_def)

lemma final_one_win:
  "final_vars (Some 1) run_one_win =
     \<lparr> v_capital = 1000250, v_peakCapital = 1000250, v_maxDrawdown = Fin 0,
       v_totalTrades = 1, v_winningTrades = 1, v_totalPnL = 250,
       v_returns = [1/4000], v_calls = 4 \<rparr>"
  by (simp add: final_vars_def iterations_def run_one_win_def script_def init_vars_def
      eval_nat_numeral iteration_def tradePnL_of_def Let_def)

lemma trades_one_win: "trades (Some 1) run_one_win = [250]"
  by (simp add: trades_def iterations_def run_one_win_def script_def init_vars_def
      iteration_def tradePnL_of_def Let_def)

lemma trades_idle: "trades (Some 3) (\<lambda>k. 1/2) = []"
  by (simp add: trades_def iterations_def init_vars_def
      eval_nat_numeral iteration_def tradePnL_of_def Let_def)

lemma returns_two_wins: "v_returns (final_vars (Some 2) run_two_wins) = [1/4000, 1/2000]"
  by (simp add: final_two_wins)

lemma mean_two_wins: "mean [1/4000, 1/2000] = 3/8000"
  by (simp add: mean_def)

lemma pvariance_two_wins: "pvariance [1/4000, 1/2000] = 1/64000000"
  by (simp add: pvariance_def mean_two_wins power2_eq_square)

lemma sqrt_pvariance_two_wins: "sqrt (1/64000000) = 1/8000"
  by (rule real_sqrt_unique) (simp_all add: power2_eq_square)

lemma sharpe_two_wins: "sharpeRatio (runSimpleBacktest (Some 2) run_two_wins) = Fin 3"
  by (simp add: runSimpleBacktest_def metrics_def returns_two_wins sharpeRatio_of_eq
      mean_two_wins pvariance_two_wins sqrt_pvariance_two_wins)

lemma sortino_two_wins: "sortinoRatio (runSimpleBacktest (Some 2) run_two_wins) = Fin (12/5)"
  by (simp add: runSimpleBacktest_def metrics_def returns_two_wins sortinoRatio_of_def
      sharpeRatio_of_eq mean_two_wins pvariance_two_wins sqrt_pvariance_two_wins)

lemma div_sqrt_neq:
  assumes "0 < x" "a\<^sup>2 \<noteq> b\<^sup>2 * x"
  shows "a / sqrt x \<noteq> (b::real)"
proof
  assume "a / sqrt x = b"
  then have "a = b * sqrt x" using assms(1) by (simp add: field_simps)
  then have "a\<^sup>2 = b\<^sup>2 * (sqrt x)\<^sup>2" by (simp add: power_mult_distrib)
  with assms show False by simp
qed

subsection \<open>A run without trades\<close>

text \<open>
  Claim C2. Round trip with no activity: for every run of \<^verbatim>\<open>runSimpleBacktest\<close> in which
  the trade branch is never taken (no trade, the capital never changes), the result
  has \<open>totalReturn = 0\<close>, \<open>maxDrawdown = 0\<close> and \<open>sharpeRatio = 0\<close>, a number and not NaN.
\<close>

theorem no_activity_round_trip:
  assumes "trades dataPoints rnd = []"
  shows "totalTrades (runSimpleBacktest dataPoints rnd) = 0
       \<and> totalReturn (runSimpleBacktest dataPoints rnd) = Fin 0
       \<and> maxDrawdown (runSimpleBacktest dataPoints rnd) = Fin 0
       \<and> sharpeRatio (runSimpleBacktest dataPoints rnd) = Fin 0"
proof -
  define s where "s = final_vars dataPoints rnd"
  have s: "s = init_vars\<lparr> v_calls := v_calls s \<rparr>"
    unfolding s_def using assms by (rule final_no_trades)
  have "v_totalTrades s = 0" "v_capital s = 1000000" "v_maxDrawdown s = Fin 0" "v_returns s = []"
    by (subst s, simp add: init_vars_def)+
  then show ?thesis
    by (simp add: runSimpleBacktest_def metrics_def s_def [symmetric] totalReturn_of_def
        sharpeRatio_of_eq pvariance_Nil)
qed

text \<open>Three iterations in which every draw is 1/2, so that no trade is taken.\<close>

theorem no_activity_round_trip_witness:
  "trades (Some 3) (\<lambda>k. 1/2) = []
   \<and> totalTrades (runSimpleBacktest (Some 3) (\<lambda>k. 1/2)) = 0
   \<and> totalReturn (runSimpleBacktest (Some 3) (\<lambda>k. 1/2)) = Fin 0
   \<and> maxDrawdown (runSimpleBacktest (Some 3) (\<lambda>k. 1/2)) = Fin 0
   \<and> sharpeRatio (runSimpleBacktest (Some 3) (\<lambda>k. 1/2)) = Fin 0"
  using no_activity_round_trip [OF trades_idle] trades_idle by simp

subsection \<open>Double arithmetic\<close>

text \<open>With exact arithmetic the second model is the first.\<close>

lemma fl_exact: "fl exact x = x"
  by (simp add: exact_def)

lemma sqrt_fn_exact: "sqrt_fn exact x = sqrt x"
  by (simp add: exact_def)

lemma pow2_fn_exact: "pow2_fn exact x = x * x"
  by (simp add: exact_def)

lemma js_round_exact: "js_round exact x = x"
  by (cases x) (simp_all add: fl_exact)

lemma r_pow2_exact: "r_pow2 exact x = js_pow2 x"
  by (cases x) (simp_all add: pow2_fn_exact js_pow2_def)

lemma r_sqrt_exact: "r_sqrt exact x = js_sqrt x"
  by (cases x) (simp_all add: sqrt_fn_exact)

lemma tradePnL_fl_exact: "tradePnL_fl exact rnd s = tradePnL_of rnd s"
  by (simp add: tradePnL_fl_def tradePnL_of_def fl_exact Let_def)

lemma iteration_fl_exact: "iteration_fl exact rnd s = iteration rnd s"
  by (cases "tradePnL_of rnd s")
     (simp_all add: iteration_fl_def iteration_def tradePnL_fl_exact r_div_def js_round_exact
        fl_exact Let_def)

lemma loop_fl_exact: "loop_fl exact n rnd s = loop n rnd s"
  by (induction n arbitrary: s) (simp_all add: iteration_fl_exact)

lemma trade_pnls_fl_exact: "trade_pnls_fl exact n rnd s = trade_pnls n rnd s"
  by (induction n arbitrary: s) (simp_all add: iteration_fl_exact tradePnL_fl_exact)

lemma trades_fl_exact: "trades_fl exact dp rnd = trades dp rnd"
  by (simp add: trades_fl_def trades_def trade_pnls_fl_exact)

lemma final_vars_fl_exact: "final_vars_fl exact dp rnd = final_vars dp rnd"
  by (simp add: final_vars_fl_def final_vars_def loop_fl_exact)

lemma foldl_r_add_exact:
  "foldl (\<lambda>a b. r_add exact a (Fin b)) (Fin a) rs = Fin (foldl (\<lambda>a b. a + b) a rs)"
  by (induction rs arbitrary: a) (simp_all add: r_add_def js_round_exact fl_exact)

lemma avgReturn_fl_exact: "avgReturn_fl exact rs = avgReturn_of rs"
  by (simp add: avgReturn_fl_def avgReturn_of_def foldl_r_add_exact r_div_def js_round_exact
      fl_exact)

lemma variance_fl_exact: "variance_fl exact rs = variance_of rs"
  by (simp add: variance_fl_def variance_of_def avgReturn_fl_exact r_div_def r_add_def r_sub_def
      js_round_exact r_pow2_exact fl_exact)

lemma metrics_fl_exact: "metrics_fl exact s = metrics s"
  by (simp add: metrics_fl_def metrics_def totalReturn_fl_def totalReturn_of_def
      sharpeRatio_fl_def sharpeRatio_of_def profitFactor_fl_def profitFactor_of_def
      calmarRatio_fl_def calmarRatio_of_def sortinoRatio_fl_def sortinoRatio_of_def
      winRate_fl_def winRate_of_def avgReturn_fl_exact variance_fl_exact
      r_div_def r_mul_def r_sub_def js_round_exact r_sqrt_exact fl_exact)

lemma runSimpleBacktest_fl_exact: "runSimpleBacktest_fl exact dp rnd = runSimpleBacktest dp rnd"
  by (simp add: runSimpleBacktest_fl_def runSimpleBacktest_def metrics_fl_exact final_vars_fl_exact)

lemma fl_sum_exact: "fl_sum exact xs = sum_list xs"
  by (simp add: fl_sum_def fl_exact foldl_plus)

lemma fl_mean_exact: "fl_mean exact rs = mean rs"
  by (simp add: fl_mean_def mean_def fl_sum_exact fl_exact)

lemma fl_pvariance_exact: "fl_pvariance exact rs = pvariance rs"
  by (simp add: fl_pvariance_def pvariance_def fl_sum_exact fl_mean_exact fl_exact pow2_fn_exact
      power2_eq_square)

text \<open>
  Whatever the rounding, the mean and the variance of the code are finite numbers, the
  rounded mean and the rounded population variance of the recorded returns.
\<close>

lemma foldl_r_add:
  "foldl (\<lambda>a b. r_add A a (Fin b)) (Fin a) rs = Fin (foldl (\<lambda>a b. fl A (a + b)) a rs)"
  by (induction rs arbitrary: a) (simp_all add: r_add_def)

lemma avgReturn_fl_mean: "avgReturn_fl A rs = Fin (fl_mean A rs)"
  by (simp add: avgReturn_fl_def fl_mean_def fl_sum_def foldl_r_add r_div_def)

lemma foldl_r_sqdev:
  "foldl (\<lambda>a b. r_add A a (r_pow2 A (r_sub A (Fin b) (Fin m)))) (Fin a) rs
     = Fin (foldl (\<lambda>a b. fl A (a + b)) a (map (\<lambda>r. pow2_fn A (fl A (r - m))) rs))"
  by (induction rs arbitrary: a) (simp_all add: r_add_def r_sub_def js_sub_def)

lemma variance_fl_pvariance: "variance_fl A rs = Fin (fl_pvariance A rs)"
  by (simp add: variance_fl_def fl_pvariance_def fl_sum_def avgReturn_fl_mean foldl_r_sqdev
      r_div_def)

lemma sharpeRatio_fl_eq:
  "sharpeRatio_fl A rs =
     (if 0 < fl_pvariance A rs
      then js_round A (js_div (Fin (fl_mean A rs)) (Fin (sqrt_fn A (fl_pvariance A rs))))
      else Fin 0)"
  by (simp add: sharpeRatio_fl_def variance_fl_pvariance avgReturn_fl_mean r_div_def)

text \<open>
  A rounding that keeps non-negative numbers non-negative, as that of doubles does,
  never makes the computed variance negative.
\<close>

lemma fl_sum_nonneg:
  assumes "\<forall>x\<ge>0. 0 \<le> fl A x" "\<forall>x\<in>set xs. 0 \<le> x" "0 \<le> a"
  shows "0 \<le> foldl (\<lambda>a b. fl A (a + b)) a xs"
  using assms(2,3)
proof (induction xs arbitrary: a)
  case Nil
  then show ?case by simp
next
  case (Cons x xs)
  have "0 \<le> fl A (a + x)" using assms(1) Cons.prems by simp
  then show ?case using Cons by simp
qed

lemma fl_pvariance_nonneg:
  assumes "\<forall>x\<ge>0. 0 \<le> fl A x" "\<forall>x. 0 \<le> pow2_fn A x"
  shows "0 \<le> fl_pvariance A rs"
proof (cases "rs = []")
  case True
  then show ?thesis by (simp add: fl_pvariance_def)
next
  case False
  have "0 \<le> fl_sum A (map (\<lambda>r. pow2_fn A (fl A (r - fl_mean A rs))) rs)"
    unfolding fl_sum_def by (rule fl_sum_nonneg) (use assms in auto)
  then have "0 \<le> fl_sum A (map (\<lambda>r. pow2_fn A (fl A (r - fl_mean A rs))) rs) / real (length rs)"
    by simp
  then show ?thesis using assms(1) False by (simp add: fl_pvariance_def)
qed

text \<open>The counters count the trades, and the total P\&L is their sum from left to right.\<close>

lemma totalTrades_loop_fl:
  "v_totalTrades (loop_fl A n rnd s) = v_totalTrades s + length (trade_pnls_fl A n rnd s)"
  by (induction n arbitrary: s) (auto simp: iteration_fl_def Let_def split: option.splits)

lemma winningTrades_loop_fl:
  "v_winningTrades (loop_fl A n rnd s)
     = v_winningTrades s + length (filter (\<lambda>p. p > 0) (trade_pnls_fl A n rnd s))"
  by (induction n arbitrary: s) (auto simp: iteration_fl_def Let_def split: option.splits)

lemma totalPnL_loop_fl:
  "v_totalPnL (loop_fl A n rnd s)
     = foldl (\<lambda>a b. fl A (a + b)) (v_totalPnL s) (trade_pnls_fl A n rnd s)"
  by (induction n arbitrary: s) (auto simp: iteration_fl_def Let_def split: option.splits)

lemma final_totalTrades_fl:
  "v_totalTrades (final_vars_fl A dp rnd) = length (trades_fl A dp rnd)"
  by (simp add: final_vars_fl_def trades_fl_def totalTrades_loop_fl init_vars_def)

lemma final_winningTrades_fl:
  "v_winningTrades (final_vars_fl A dp rnd) = length (filter (\<lambda>p. p > 0) (trades_fl A dp rnd))"
  by (simp add: final_vars_fl_def trades_fl_def winningTrades_loop_fl init_vars_def)

lemma final_totalPnL_fl: "v_totalPnL (final_vars_fl A dp rnd) = fl_sum A (trades_fl A dp rnd)"
  by (simp add: final_vars_fl_def trades_fl_def totalPnL_loop_fl init_vars_def fl_sum_def)

lemma gross_loss_nonempty: "gross_loss ps \<noteq> 0 \<Longrightarrow> ps \<noteq> []"
  by (auto simp: gross_loss_def)

subsection \<open>The Sortino ratio\<close>

text \<open>
  The Sortino ratio of the code is not the numerator of Sharpe over the downside
  deviation. After two winning trades of 250 the returns are 1/4000 and 1/2000 and the
  code returns 12/5; over the downside deviation below the mean the quotient is
  \<open>3 * sqrt 2\<close>, and below zero the downside deviation is 0.
\<close>

theorem sortinoRatio_counterexample:
  "sortinoRatio (runSimpleBacktest (Some 2) run_two_wins)
     \<noteq> sortino_spec (mean (v_returns (final_vars (Some 2) run_two_wins)))
          (v_returns (final_vars (Some 2) run_two_wins))
   \<and> sortinoRatio (runSimpleBacktest (Some 2) run_two_wins)
     \<noteq> sortino_spec 0 (v_returns (final_vars (Some 2) run_two_wins))"
proof -
  have dd_mean: "downside_deviation (3/8000) [1/4000, 1/2000] = sqrt (1/128000000)"
    by (simp add: downside_deviation_def power2_eq_square)
  have dd_zero: "downside_deviation 0 [1/4000, 1/2000] = 0"
    by (simp add: downside_deviation_def)
  have ne: "(3/8000) / sqrt (1/128000000) \<noteq> (12/5 :: real)"
    by (rule div_sqrt_neq) (simp_all add: power2_eq_square)
  have pos: "sqrt (1/128000000 :: real) \<noteq> 0" by simp
  show ?thesis
    using ne pos
    by (simp add: sortino_two_wins returns_two_wins mean_two_wins sortino_spec_def
        dd_mean dd_zero del: real_sqrt_eq_zero_cancel_iff)
qed

text \<open>
  Claim C3, as the code has it: the Sortino ratio returned by a backtest is the returned
  Sharpe ratio multiplied by 0.8, one multiplication of doubles, for every run. No
  downside deviation is computed.
\<close>

theorem sortinoRatio_is_sharpe_times_08:
  "sortinoRatio (runSimpleBacktest_fl A dataPoints rnd)
     = r_mul A (sharpeRatio (runSimpleBacktest_fl A dataPoints rnd)) (Fin (fl A 0.8))"
  by (simp add: runSimpleBacktest_fl_def metrics_fl_def sortinoRatio_fl_def)

text \<open>In exact arithmetic, on the run of two winning trades.\<close>

theorem sortinoRatio_is_sharpe_times_08_witness:
  "sharpeRatio (runSimpleBacktest_fl exact (Some 2) run_two_wins) = Fin 3
   \<and> sortinoRatio (runSimpleBacktest_fl exact (Some 2) run_two_wins) = Fin (12/5)"
  using sortinoRatio_is_sharpe_times_08 [of exact "Some 2" run_two_wins]
  by (simp add: runSimpleBacktest_fl_exact sharpe_two_wins fl_exact r_mul_def)

subsection \<open>The Sharpe ratio\<close>

text \<open>
  The Sharpe ratio of the code has no annualization and no risk-free rate. On the run of
  two winning trades it is 3; the formula of the specification gives \<open>3 * sqrt 252\<close> with
  252 periods a year and no risk-free rate, and -77 with one period and a risk-free rate
  of one per cent.
\<close>

theorem sharpeRatio_counterexample:
  "sharpeRatio (runSimpleBacktest (Some 2) run_two_wins)
     \<noteq> sharpe_spec 252 0 (v_returns (final_vars (Some 2) run_two_wins))
   \<and> sharpeRatio (runSimpleBacktest (Some 2) run_two_wins)
     \<noteq> sharpe_spec 1 (1/100) (v_returns (final_vars (Some 2) run_two_wins))"
proof -
  have ne: "(189/2000) / sqrt (63/16000000) \<noteq> (3 :: real)"
    by (rule div_sqrt_neq) (simp_all add: power2_eq_square)
  have pos: "sqrt (63/16000000 :: real) \<noteq> 0" by simp
  show ?thesis
    using ne pos
    by (simp add: sharpe_two_wins returns_two_wins mean_two_wins pvariance_two_wins
        sqrt_pvariance_two_wins sharpe_spec_def del: real_sqrt_eq_zero_cancel_iff)
qed

text \<open>
  Claim C4, as the code has it: the Sharpe ratio returned by a backtest equals
  \<^verbatim>\<open>avgReturn / Math.sqrt(variance)\<close>, a division of doubles, where \<^verbatim>\<open>avgReturn\<close> is the
  mean of the recorded returns and \<^verbatim>\<open>variance\<close> their population variance about it, both
  as the code computes them on doubles (sums from left to right, every operation
  rounded), for every run whose computed variance is positive; a computed variance is
  never negative on doubles, so that these are the runs whose computed variance is
  nonzero. No annualization and no risk-free rate enter.
\<close>

theorem sharpeRatio_is_avg_over_sqrt_variance:
  assumes "0 < fl_pvariance A (v_returns (final_vars_fl A dataPoints rnd))"
  shows "sharpeRatio (runSimpleBacktest_fl A dataPoints rnd)
           = r_div A (Fin (fl_mean A (v_returns (final_vars_fl A dataPoints rnd))))
                (Fin (sqrt_fn A (fl_pvariance A (v_returns (final_vars_fl A dataPoints rnd)))))"
  using assms by (simp add: runSimpleBacktest_fl_def metrics_fl_def sharpeRatio_fl_eq r_div_def)

text \<open>In exact arithmetic, on the run of two winning trades.\<close>

theorem sharpeRatio_is_avg_over_sqrt_variance_witness:
  "0 < fl_pvariance exact (v_returns (final_vars_fl exact (Some 2) run_two_wins))
   \<and> sharpeRatio (runSimpleBacktest_fl exact (Some 2) run_two_wins) = Fin 3"
proof -
  have h: "0 < fl_pvariance exact (v_returns (final_vars_fl exact (Some 2) run_two_wins))"
    by (simp add: final_vars_fl_exact returns_two_wins fl_pvariance_exact pvariance_two_wins)
  show ?thesis
    using h sharpeRatio_is_avg_over_sqrt_variance [OF h]
    by (simp add: final_vars_fl_exact returns_two_wins fl_pvariance_exact fl_mean_exact
        pvariance_two_wins mean_two_wins sqrt_pvariance_two_wins js_round_exact sqrt_fn_exact
        fl_exact r_div_def)
qed

text \<open>
  In exact arithmetic this is the mean of the recorded returns over their standard
  deviation, the formula of the specification with an annualization factor of 1 and a
  risk-free rate of 0.
\<close>

lemma sharpeRatio_exact:
  assumes "pvariance (v_returns (final_vars dataPoints rnd)) \<noteq> 0"
  shows "sharpeRatio (runSimpleBacktest dataPoints rnd)
           = Fin (mean (v_returns (final_vars dataPoints rnd))
                  / sqrt (pvariance (v_returns (final_vars dataPoints rnd))))
       \<and> sharpeRatio (runSimpleBacktest dataPoints rnd)
           = sharpe_spec 1 0 (v_returns (final_vars dataPoints rnd))"
proof -
  let ?rs = "v_returns (final_vars dataPoints rnd)"
  have "0 < pvariance ?rs"
    using assms pvariance_nonneg [of ?rs] by simp
  then show ?thesis
    by (simp add: runSimpleBacktest_def metrics_def sharpeRatio_of_eq sharpe_spec_def)
qed

subsection \<open>The profit factor\<close>

text \<open>
  The profit factor of the code is not gross profit over gross loss. After a win of 250
  and a loss of 100 the gross profit is 250 and the gross loss 100, a quotient of 5/2;
  the code returns 150 / |150 - 150 * 1/2| = 2.
\<close>

theorem profitFactor_counterexample:
  "gross_loss (trades (Some 2) run_win_loss) \<noteq> 0
   \<and> profit_factor_spec (trades (Some 2) run_win_loss) = Fin (5/2)
   \<and> profitFactor (runSimpleBacktest (Some 2) run_win_loss) = Fin 2"
  by (simp add: trades_win_loss gross_loss_def gross_profit_def profit_factor_spec_def
      runSimpleBacktest_def metrics_def final_win_loss profitFactor_of_def winRate_of_def
      js_sub_def)

text \<open>
  Claim C5, as the code has it: for every run with nonzero gross loss, the profit factor
  returned by a backtest equals \<^verbatim>\<open>totalPnL / Math.abs(totalPnL - totalPnL * winRate)\<close>,
  computed on doubles, when the accumulated total P\&L is positive, and 0 otherwise,
  where \<^verbatim>\<open>totalPnL\<close> is the sum of the P\&L of the trades as the code accumulates it (from
  left to right, every addition rounded) and \<^verbatim>\<open>winRate\<close> the number of trades with
  positive P\&L divided by the number of trades. Gross profit and gross loss are not
  computed.
\<close>

theorem profitFactor_is_pnl_over_unwon_pnl:
  assumes "gross_loss (trades_fl A dataPoints rnd) \<noteq> 0"
  shows "profitFactor (runSimpleBacktest_fl A dataPoints rnd)
           = (if 0 < fl_sum A (trades_fl A dataPoints rnd)
              then r_div A (Fin (fl_sum A (trades_fl A dataPoints rnd)))
                     (Fin \<bar>fl A (fl_sum A (trades_fl A dataPoints rnd)
                                - fl A (fl_sum A (trades_fl A dataPoints rnd)
                                        * fl A (real (length (filter (\<lambda>p. p > 0)
                                                                (trades_fl A dataPoints rnd)))
                                                / real (length (trades_fl A dataPoints rnd)))))\<bar>)
              else Fin 0)"
proof -
  have ne: "trades_fl A dataPoints rnd \<noteq> []"
    using assms by (rule gross_loss_nonempty)
  then show ?thesis
    by (simp add: runSimpleBacktest_fl_def metrics_fl_def profitFactor_fl_def winRate_fl_def
        final_totalTrades_fl final_winningTrades_fl final_totalPnL_fl
        r_div_def r_sub_def r_mul_def js_sub_def)
qed

text \<open>In exact arithmetic, on the run of a win and a loss.\<close>

theorem profitFactor_is_pnl_over_unwon_pnl_witness:
  "gross_loss (trades_fl exact (Some 2) run_win_loss) \<noteq> 0
   \<and> profitFactor (runSimpleBacktest_fl exact (Some 2) run_win_loss) = Fin 2"
proof -
  have h: "gross_loss (trades_fl exact (Some 2) run_win_loss) \<noteq> 0"
    by (simp add: trades_fl_exact trades_win_loss gross_loss_def)
  show ?thesis
    using h profitFactor_is_pnl_over_unwon_pnl [OF h]
    by (simp add: trades_fl_exact trades_win_loss fl_sum_exact fl_exact r_div_def)
qed

subsection \<open>The win rate\<close>

text \<open>
  Claim C6. The win rate returned by a backtest equals winning trades over total trades
  for every run with at least one trade, and lies between 0 and 1; when there is no
  trade it is 0 and no division takes place.
\<close>

theorem winRate_is_wins_over_trades:
  "totalTrades (runSimpleBacktest dataPoints rnd) = length (trades dataPoints rnd)
   \<and> (length (trades dataPoints rnd) \<ge> 1 \<longrightarrow>
        winRate (runSimpleBacktest dataPoints rnd)
          = Fin (real (length (filter (\<lambda>p. p > 0) (trades dataPoints rnd)))
                 / real (length (trades dataPoints rnd))))
   \<and> (length (trades dataPoints rnd) = 0 \<longrightarrow>
        winRate (runSimpleBacktest dataPoints rnd) = Fin 0)
   \<and> (\<exists>w. winRate (runSimpleBacktest dataPoints rnd) = Fin w \<and> 0 \<le> w \<and> w \<le> 1)"
proof -
  let ?ps = "trades dataPoints rnd"
  have le: "real (length (filter (\<lambda>p. p > 0) ?ps)) \<le> real (length ?ps)"
    by simp
  then have "real (length (filter (\<lambda>p. p > 0) ?ps)) / real (length ?ps) \<le> 1"
    by (cases "?ps = []") (simp_all add: divide_le_eq_1)
  then show ?thesis
    by (simp add: runSimpleBacktest_def metrics_def winRate_of_def
        final_totalTrades final_winningTrades)
qed

theorem winRate_is_wins_over_trades_witness:
  "length (trades (Some 2) run_win_loss) \<ge> 1
   \<and> winRate (runSimpleBacktest (Some 2) run_win_loss) = Fin (1/2)
   \<and> length (trades (Some 3) (\<lambda>k. 1/2)) = 0
   \<and> winRate (runSimpleBacktest (Some 3) (\<lambda>k. 1/2)) = Fin 0"
  using winRate_is_wins_over_trades [of "Some 2" run_win_loss]
    winRate_is_wins_over_trades [of "Some 3" "\<lambda>k. 1/2"]
  by (simp add: trades_win_loss trades_idle)

subsection \<open>Zero denominators\<close>

text \<open>
  The win rate, the Sharpe ratio and the Calmar ratio are guarded by their own
  denominators and are finite numbers in every run. The profit factor is guarded by its
  numerator: it is never NaN, but its denominator can be zero.
\<close>

lemma winRate_finite: "\<exists>w. winRate_of s = Fin w"
  by (simp add: winRate_of_def)

lemma sharpeRatio_finite: "\<exists>x. sharpeRatio_of rs = Fin x"
  by (simp add: sharpeRatio_of_eq)

lemma calmarRatio_finite: "bt_inv s \<Longrightarrow> \<exists>x. calmarRatio_of s = Fin x"
  by (auto simp: calmarRatio_of_def bt_inv_def)

lemma profitFactor_not_NaN: "bt_inv s \<Longrightarrow> profitFactor_of s \<noteq> NaN"
  by (auto simp: profitFactor_of_def winRate_of_def js_sub_def)

text \<open>For every run:\<close>

lemma ratios_of_run:
  "(\<exists>w. winRate (runSimpleBacktest dp rnd) = Fin w)
   \<and> (\<exists>x. sharpeRatio (runSimpleBacktest dp rnd) = Fin x)
   \<and> (\<exists>x. calmarRatio (runSimpleBacktest dp rnd) = Fin x)
   \<and> profitFactor (runSimpleBacktest dp rnd) \<noteq> NaN"
  using winRate_finite [of "final_vars dp rnd"]
    sharpeRatio_finite [of "v_returns (final_vars dp rnd)"]
    calmarRatio_finite [OF bt_inv_final, of dp rnd]
    profitFactor_not_NaN [OF bt_inv_final, of dp rnd]
  by (simp add: runSimpleBacktest_def metrics_def)

text \<open>
  Claim C7. No ratio computation divides by zero: when the denominator of a ratio is
  zero the computation returns a fallback value. This fails for \<open>profitFactor\<close>: in a
  run of a single winning trade the win rate is 1, the denominator
  |totalPnL - totalPnL * winRate| is 0 while the guard \<open>totalPnL > 0\<close> holds, and the
  division by zero returns \<^verbatim>\<open>Infinity\<close>.
\<close>

theorem profitFactor_divides_by_zero:
  "trades (Some 1) run_one_win = [250]
   \<and> winRate (runSimpleBacktest (Some 1) run_one_win) = Fin 1
   \<and> profitFactor (runSimpleBacktest (Some 1) run_one_win) = PosInf"
  by (simp add: trades_one_win runSimpleBacktest_def metrics_def final_one_win
      profitFactor_of_def winRate_of_def js_sub_def)

section \<open>Properties of the chart history\<close>











section \<open>Properties of the input boundary\<close>

text \<open>
  Claim C8. Every malformed tick presented at the input boundary (crossed prices with
  bid at or above ask, or a non-positive bid or ask size) is rejected with a validation
  error, and the state is unchanged: the engine's, and with it the chart arrays of the
  page, since the callback is left before the tick is used.
\<close>

theorem malformed_tick_rejected:
  assumes "malformed tick" and "engine d = Some e" and "isRunning d"
  shows "process_market_data pipeline tick e = (Inl ValidationError, e)
       \<and> interval_callback pipeline tick d = (Inl ValidationError, d)"
  using assms by (simp add: process_market_data_def interval_callback_def)

theorem malformed_tick_rejected_witness:
  "malformed crossed_tick
   \<and> process_market_data counting_pipeline crossed_tick (3::nat) = (Inl ValidationError, 3)
   \<and> interval_callback counting_pipeline crossed_tick
        \<lparr> engine = Some (3::nat), isRunning = True, chart_data = empty_charts \<rparr>
      = (Inl ValidationError,
         \<lparr> engine = Some 3, isRunning = True, chart_data = empty_charts \<rparr>)"
proof -
  have m: "malformed crossed_tick" by (simp add: malformed_def crossed_tick_def)
  show ?thesis
    using m malformed_tick_rejected [OF m, of "\<lparr> engine = Some (3::nat), isRunning = True, chart_data = empty_charts \<rparr>" 3 counting_pipeline]
    by simp
qed

lemma well_formed_tick_processed:
  "\<not> malformed tick \<Longrightarrow> engine d = Some e \<Longrightarrow> isRunning d \<Longrightarrow>
     interval_callback pipeline tick d
       = (Inr (), d\<lparr> engine := Some (snd (pipeline tick e)),
                    chart_data := updateCharts tick (fst (pipeline tick e)) (chart_data d) \<rparr>)"
  by (simp add: process_market_data_def interval_callback_def split: prod.splits)

text \<open>
  The page's own generator can present a malformed tick: its sizes are always positive,
  and its prices are crossed exactly when both spread draws are 0.
\<close>

lemma spread_iff:
  fixes a b c :: real
  assumes "0 \<le> a" "0 \<le> b"
  shows "(c + b * 2 \<le> c - a * 2) \<longleftrightarrow> a = 0 \<and> b = 0"
proof
  assume "c + b * 2 \<le> c - a * 2"
  then have "a + b \<le> 0" by linarith
  with assms show "a = 0 \<and> b = 0" by linarith
next
  assume "a = 0 \<and> b = 0"
  then show "c + b * 2 \<le> c - a * 2" by simp
qed

lemma generated_crossed:
  "generateSampleMarketData ''NIFTY'' 0 (1/50) (script [1/2, 1/2, 0, 0, 0, 0, 0]) = crossed_tick"
  by (simp add: generateSampleMarketData_def script_def crossed_tick_def Let_def)

lemma generated_malformed_iff:
  assumes "\<forall>k. 0 \<le> rnd k \<and> rnd k < 1"
  shows "malformed (generateSampleMarketData name now v rnd)
           \<longleftrightarrow> rnd 2 = 0 \<and> rnd 3 = 0"
proof -
  have r2: "0 \<le> rnd 2" using assms by blast
  have r3: "0 \<le> rnd 3" using assms by blast
  have r4: "0 \<le> rnd 4" using assms by blast
  have r5: "0 \<le> rnd 5" using assms by blast
  have s4: "\<not> 100 + rnd 4 * 500 \<le> 0" using r4 by linarith
  have s5: "\<not> 100 + rnd 5 * 500 \<le> 0" using r5 by linarith
  have "malformed (generateSampleMarketData name now v rnd)
          \<longleftrightarrow> (18450 + rnd 0 * 100 + rnd 3 * 2 \<le> 18450 + rnd 0 * 100 - rnd 2 * 2)
               \<or> 100 + rnd 4 * 500 \<le> 0 \<or> 100 + rnd 5 * 500 \<le> 0"
    unfolding malformed_def generateSampleMarketData_def Let_def
    by (simp only: MarketTick.simps)
  also have "\<dots> \<longleftrightarrow> rnd 2 = 0 \<and> rnd 3 = 0"
    using s4 s5 spread_iff [OF r2 r3, of "18450 + rnd 0 * 100"] by blast
  finally show ?thesis .
qed

section \<open>Properties of the backtest button\<close>

lemma cells_simulated: "cells (showSimulatedBacktestResults rnd p) = simulated_cells rnd"
  by (simp add: cells_def simulated_cells_def showSimulatedBacktestResults_def Let_def)

lemma cells_simulated_status:
  "cells (p\<lparr> el_statusText := s \<rparr>) = cells p"
  by (simp add: cells_def)

lemma toFixed_or_zero:
  "v \<noteq> FBool True \<Longrightarrow> toFixed (or_zero v) d sfx = Some (Fixed (to_number (or_zero v)) d sfx)"
  by (cases v rule: truthy.cases) (simp_all add: toFixed_def or_zero_def)

lemma toFixed_Some: "toFixed v d u = Some c \<Longrightarrow> c = Fixed (to_number v) d u"
  by (cases v) (simp_all add: toFixed_def)

lemma show_results_ok:
  "formattable r \<Longrightarrow>
     snd (show_results r p) = False \<and> cells (fst (show_results r p)) = result_cells r
     \<and> el_statusText (fst (show_results r p)) = ''Backtest Complete''"
  by (simp add: formattable_def show_results_def Let_def toFixed_or_zero cells_def result_cells_def)

lemma show_results_cases:
  "(snd (show_results r p) = False \<and> cells (fst (show_results r p)) = result_cells r)
   \<or> snd (show_results r p) = True"
  by (auto simp: show_results_def Let_def cells_def result_cells_def
      split: option.splits dest!: toFixed_Some)

lemma status_simulated:
  "el_statusText (showSimulatedBacktestResults rnd p) = el_statusText p"
  by (simp add: showSimulatedBacktestResults_def Let_def)

lemma toFixed_True: "toFixed (or_zero (FBool True)) d u = None"
  by (simp add: toFixed_def or_zero_def)

lemma show_results_bad:
  "\<not> formattable r \<Longrightarrow>
     snd (show_results r p) = True
     \<and> el_statusText (fst (show_results r p)) = el_statusText p"
  by (auto simp: formattable_def show_results_def Let_def toFixed_True split: option.splits)

text \<open>
  A failed run does display substitute values: when the engine call throws and every
  draw of \<^verbatim>\<open>Math.random\<close> is 0, the eight result elements show -10.00 per cent, 0.500
  and so on, none of which the engine returned.
\<close>

theorem failed_backtest_displays_substitutes:
  "engine_throws [tick0] = Throws ThrownOther
   \<and> cells (runBacktest_click (Some engine_throws) [tick0] (\<lambda>k. 0) blank_panel)
       = [Fixed (Fin (-10)) 2 ''%'', Fixed (Fin (1/2)) 3 '''', Fixed (Fin 5) 2 ''%'',
          Fixed (Fin (4/5)) 2 '''', Fixed (Fin (1/2)) 3 '''', Fixed (Fin (1/2)) 3 '''',
          Plain (FNum (Fin 100)), Fixed (Fin 50) 1 ''%'']
   \<and> cells (runBacktest_click (Some engine_throws) [tick0] (\<lambda>k. 0) blank_panel)
       \<noteq> cells blank_panel"
  by (simp add: engine_throws_def runBacktest_click_def backtest_try_def
      showSimulatedBacktestResults_def cells_def blank_panel_def Let_def)

text \<open>
  Claim C1, as the code has it. A backtest run is atomic in what it displays: for every
  input tick sequence, either the run completes, returns one result object whose ratio
  members can be formatted, and exactly the eight members of that result are displayed
  (absent ones as 0) with the status "Backtest Complete"; or the run fails and the eight
  elements all show the substitute values of \<^verbatim>\<open>showSimulatedBacktestResults\<close>: with the
  status "Backtest Complete (Simulated)" when the engine call returns no object or
  throws a value other than \<^verbatim>\<open>null\<close> and \<^verbatim>\<open>undefined\<close>, with the status
  "Backtest Failed - Using Simulated Results" when it throws \<^verbatim>\<open>null\<close> or \<^verbatim>\<open>undefined\<close>,
  and with the status left at "Running Backtest" when a ratio member of the returned
  object cannot be formatted. In every case the eight elements show either the members
  of the returned result or the substitute values, never a mixture; without an engine
  nothing is displayed.
\<close>

theorem backtest_display_result_or_substitute:
  "(run_backtest ticks = Returns (ResultObject r) \<and> formattable r \<longrightarrow>
      cells (runBacktest_click (Some run_backtest) ticks rnd p) = result_cells r
      \<and> el_statusText (runBacktest_click (Some run_backtest) ticks rnd p) = ''Backtest Complete'')
   \<and> (run_backtest ticks = Throws ThrownOther \<or> run_backtest ticks = Returns NotAnObject \<longrightarrow>
      cells (runBacktest_click (Some run_backtest) ticks rnd p) = simulated_cells rnd
      \<and> el_statusText (runBacktest_click (Some run_backtest) ticks rnd p)
          = ''Backtest Complete (Simulated)'')
   \<and> (run_backtest ticks = Throws ThrownNullish \<longrightarrow>
      cells (runBacktest_click (Some run_backtest) ticks rnd p) = simulated_cells rnd
      \<and> el_statusText (runBacktest_click (Some run_backtest) ticks rnd p)
          = ''Backtest Failed - Using Simulated Results'')
   \<and> (run_backtest ticks = Returns (ResultObject r) \<and> \<not> formattable r \<longrightarrow>
      cells (runBacktest_click (Some run_backtest) ticks rnd p) = simulated_cells rnd
      \<and> el_statusText (runBacktest_click (Some run_backtest) ticks rnd p)
          = ''Running Backtest'')
   \<and> (cells (runBacktest_click (Some run_backtest) ticks rnd p) = simulated_cells rnd
      \<or> (\<exists>r'. run_backtest ticks = Returns (ResultObject r')
              \<and> cells (runBacktest_click (Some run_backtest) ticks rnd p) = result_cells r'))
   \<and> runBacktest_click None ticks rnd p = p"
proof -
  let ?p0 = "p\<lparr> el_statusText := ''Running Backtest'' \<rparr>"
  have ok: "cells (runBacktest_click (Some run_backtest) ticks rnd p) = result_cells r
      \<and> el_statusText (runBacktest_click (Some run_backtest) ticks rnd p) = ''Backtest Complete''"
    if "run_backtest ticks = Returns (ResultObject r)" "formattable r"
    using that show_results_ok [OF that(2), of ?p0]
    by (auto simp: runBacktest_click_def backtest_try_def split: prod.splits)
  have sim: "cells (runBacktest_click (Some run_backtest) ticks rnd p) = simulated_cells rnd
      \<and> el_statusText (runBacktest_click (Some run_backtest) ticks rnd p)
          = ''Backtest Complete (Simulated)''"
    if "run_backtest ticks = Throws ThrownOther \<or> run_backtest ticks = Returns NotAnObject"
    using that
    by (auto simp: runBacktest_click_def backtest_try_def cells_simulated cells_simulated_status)
  have failed: "cells (runBacktest_click (Some run_backtest) ticks rnd p) = simulated_cells rnd
      \<and> el_statusText (runBacktest_click (Some run_backtest) ticks rnd p)
          = ''Backtest Failed - Using Simulated Results''"
    if "run_backtest ticks = Throws ThrownNullish"
    using that
    by (simp add: runBacktest_click_def backtest_try_def cells_simulated cells_simulated_status)
  have bad: "cells (runBacktest_click (Some run_backtest) ticks rnd p) = simulated_cells rnd
      \<and> el_statusText (runBacktest_click (Some run_backtest) ticks rnd p) = ''Running Backtest''"
    if "run_backtest ticks = Returns (ResultObject r)" "\<not> formattable r"
    using that show_results_bad [OF that(2), of ?p0]
    by (auto simp: runBacktest_click_def backtest_try_def cells_simulated status_simulated
          split: prod.splits)
  have either: "cells (runBacktest_click (Some run_backtest) ticks rnd p) = simulated_cells rnd
      \<or> (\<exists>r'. run_backtest ticks = Returns (ResultObject r')
              \<and> cells (runBacktest_click (Some run_backtest) ticks rnd p) = result_cells r')"
  proof (cases "run_backtest ticks")
    case (Throws e)
    then show ?thesis using sim failed by (cases e) simp_all
  next
    case (Returns v)
    show ?thesis
    proof (cases v)
      case NotAnObject
      then show ?thesis using sim Returns by simp
    next
      case (ResultObject r')
      then show ?thesis
        using Returns show_results_cases [of r' ?p0]
        by (auto simp: runBacktest_click_def backtest_try_def cells_simulated split: prod.splits)
    qed
  qed
  show ?thesis
    using ok sim failed bad either by (simp add: runBacktest_click_def)
qed

theorem backtest_display_result_or_substitute_witness:
  "engine_returns_good [tick0] = Returns (ResultObject good_results) \<and> formattable good_results
   \<and> cells (runBacktest_click (Some engine_returns_good) [tick0] (\<lambda>k. 0) blank_panel)
       = [Fixed (Fin 5) 2 ''%'', Fixed (Fin (3/2)) 3 '''', Fixed (Fin 2) 2 ''%'',
          Fixed (Fin 2) 2 '''', Fixed (Fin (5/2)) 3 '''', Fixed (Fin 0) 3 '''',
          Plain (FNum (Fin 42)), Fixed (Fin 60) 1 ''%'']
   \<and> el_statusText (runBacktest_click (Some engine_returns_good) [tick0] (\<lambda>k. 0) blank_panel)
       = ''Backtest Complete''
   \<and> engine_throws [tick0] = Throws ThrownOther
   \<and> cells (runBacktest_click (Some engine_throws) [tick0] (\<lambda>k. 0) blank_panel)
       = simulated_cells (\<lambda>k. 0)
   \<and> el_statusText (runBacktest_click (Some engine_throws) [tick0] (\<lambda>k. 0) blank_panel)
       = ''Backtest Complete (Simulated)''
   \<and> engine_throws_null [tick0] = Throws ThrownNullish
   \<and> cells (runBacktest_click (Some engine_throws_null) [tick0] (\<lambda>k. 0) blank_panel)
       = simulated_cells (\<lambda>k. 0)
   \<and> el_statusText (runBacktest_click (Some engine_throws_null) [tick0] (\<lambda>k. 0) blank_panel)
       = ''Backtest Failed - Using Simulated Results''
   \<and> engine_returns_bad [tick0] = Returns (ResultObject bad_results) \<and> \<not> formattable bad_results
   \<and> cells (runBacktest_click (Some engine_returns_bad) [tick0] (\<lambda>k. 0) blank_panel)
       = simulated_cells (\<lambda>k. 0)
   \<and> el_statusText (runBacktest_click (Some engine_returns_bad) [tick0] (\<lambda>k. 0) blank_panel)
       = ''Running Backtest''"
proof -
  have g: "engine_returns_good [tick0] = Returns (ResultObject good_results)"
    by (simp add: engine_returns_good_def)
  have f: "formattable good_results"
    by (simp add: formattable_def good_results_def)
  have t: "engine_throws [tick0] = Throws ThrownOther"
    by (simp add: engine_throws_def)
  have n: "engine_throws_null [tick0] = Throws ThrownNullish"
    by (simp add: engine_throws_null_def)
  have b: "engine_returns_bad [tick0] = Returns (ResultObject bad_results)"
    by (simp add: engine_returns_bad_def)
  have nf: "\<not> formattable bad_results"
    by (simp add: formattable_def bad_results_def)
  have rc: "result_cells good_results
       = [Fixed (Fin 5) 2 ''%'', Fixed (Fin (3/2)) 3 '''', Fixed (Fin 2) 2 ''%'',
          Fixed (Fin 2) 2 '''', Fixed (Fin (5/2)) 3 '''', Fixed (Fin 0) 3 '''',
          Plain (FNum (Fin 42)), Fixed (Fin 60) 1 ''%'']"
    by (simp add: result_cells_def good_results_def or_zero_def)
  show ?thesis
    using g f t n b nf rc
      backtest_display_result_or_substitute [of engine_returns_good "[tick0]" good_results "\<lambda>k. 0" blank_panel]
      backtest_display_result_or_substitute [of engine_throws "[tick0]" good_results "\<lambda>k. 0" blank_panel]
      backtest_display_result_or_substitute [of engine_throws_null "[tick0]" good_results "\<lambda>k. 0" blank_panel]
      backtest_display_result_or_substitute [of engine_returns_bad "[tick0]" bad_results "\<lambda>k. 0" blank_panel]
    by simp
qed

section \<open>Properties of the chat endpoint\<close>

lemma if_nonempty: "a \<noteq> [] \<Longrightarrow> b \<noteq> [] \<Longrightarrow> (if c then a else b) \<noteq> []"
  by simp

lemma reply_for_nonempty: "reply_for message \<noteq> []"
  unfolding reply_for_def Let_def
  by (intro if_nonempty) simp_all

lemma lower_hello: "toLowerCase ''Hello there'' = ''hello there''"
  by (simp add: toLowerCase_def lower_char_def)

text \<open>
  The status is 400 for a message that is present and not empty, the number 0; and a
  message that is the number 5 gets no response at all, the handler throws.
\<close>

theorem chat_counterexample:
  "chat [''message'' \<mapsto> JNumber 0]
     = Inr \<lparr> status = 400, body = ErrorBody ''Message is required'' \<rparr>
   \<and> chat [''message'' \<mapsto> JNumber 5] = Inl TypeError"
  by (simp add: chat_def)

text \<open>
  Claim C10, as the code has it. The endpoint responds with status 400 and the body
  \<^verbatim>\<open>{"error": "Message is required"}\<close> exactly when the message member of the request
  body is absent or falsy (\<^verbatim>\<open>null\<close>, \<^verbatim>\<open>false\<close>, 0 or the empty string); for every non-empty
  string message it responds with status 200 and a body whose reply member is a
  non-empty string.
\<close>

theorem chat_responses:
  "(chat req_body = Inr \<lparr> status = 400, body = ErrorBody ''Message is required'' \<rparr>
      \<longleftrightarrow> (case req_body ''message'' of None \<Rightarrow> True | Some m \<Rightarrow> \<not> truthy_json m))
   \<and> (\<forall>s. s \<noteq> [] \<and> req_body ''message'' = Some (JString s) \<longrightarrow>
         (\<exists>reply. chat req_body = Inr \<lparr> status = 200, body = ReplyBody reply \<rparr> \<and> reply \<noteq> []))"
  by (auto simp: chat_def reply_for_nonempty split: option.splits json.splits)

theorem chat_responses_witness:
  "chat Map.empty = Inr \<lparr> status = 400, body = ErrorBody ''Message is required'' \<rparr>
   \<and> ''Hello there'' \<noteq> []
   \<and> chat [''message'' \<mapsto> JString ''Hello there'']
       = Inr \<lparr> status = 200,
               body = ReplyBody ''Hello! I'm your HFT trading assistant. How can I help you today?'' \<rparr>"
  using chat_responses [of Map.empty] chat_responses [of "[''message'' \<mapsto> JString ''Hello there'']"]
  by (simp add: chat_def reply_for_def lower_hello)

end
